theory Spec2Isabelle
  imports Complex_Main "HOL-Library.Log_Nat"
begin

section \<open>JavaScript values used by the harness\<close>

text \<open>
  Strings are modelled as \<^typ>\<open>string\<close>, one character for one UTF-16 code unit (the
  strings of the source tables are ASCII). An object literal used as a table is an
  association list in the order of the source (the order matters for \<^verbatim>\<open>Object.entries\<close>
  and \<^verbatim>\<open>Object.keys\<close>). A property that may be missing is an \<^typ>\<open>'a option\<close> (\<^const>\<open>None\<close>
  for \<^verbatim>\<open>undefined\<close>).
\<close>

datatype js_error =
    Error string
  | TypeError
  | RangeError

subsection \<open>Reading a property of an object literal\<close>

text \<open>
  \<^verbatim>\<open>obj[key]\<close> on an object literal finds the properties written in the literal and, for
  any other key, the properties every plain object inherits from \<^verbatim>\<open>Object.prototype\<close>:
  eleven built-in functions and the accessor \<^verbatim>\<open>__proto__\<close>, which gives
  \<^verbatim>\<open>Object.prototype\<close> itself.
\<close>

datatype builtin = BuiltinFunction string | ObjectPrototype

definition Object_prototype :: \<open>(string \<times> builtin) list\<close> where
  \<open>Object_prototype =
    [(''constructor'', BuiltinFunction ''Object''),
     (''__defineGetter__'', BuiltinFunction ''__defineGetter__''),
     (''__defineSetter__'', BuiltinFunction ''__defineSetter__''),
     (''hasOwnProperty'', BuiltinFunction ''hasOwnProperty''),
     (''__lookupGetter__'', BuiltinFunction ''__lookupGetter__''),
     (''__lookupSetter__'', BuiltinFunction ''__lookupSetter__''),
     (''isPrototypeOf'', BuiltinFunction ''isPrototypeOf''),
     (''propertyIsEnumerable'', BuiltinFunction ''propertyIsEnumerable''),
     (''toString'', BuiltinFunction ''toString''),
     (''valueOf'', BuiltinFunction ''valueOf''),
     (''__proto__'', ObjectPrototype),
     (''toLocaleString'', BuiltinFunction ''toLocaleString'')]\<close>

datatype 'a property = Own 'a | Inherited builtin | Missing

definition get_property :: \<open>(string \<times> 'a) list \<Rightarrow> string \<Rightarrow> 'a property\<close> where
  \<open>get_property obj key =
     (case map_of obj key of
        Some v \<Rightarrow> Own v
      | None \<Rightarrow>
         (case map_of Object_prototype key of
            Some b \<Rightarrow> Inherited b
          | None \<Rightarrow> Missing))\<close>

text \<open>
  The value of \<^verbatim>\<open>obj[key] || d\<close>: a value of the table's own kind, or a built-in that the
  key inherited. Built-in functions and objects are truthy; the empty string, zero and
  \<^verbatim>\<open>undefined\<close> are falsy.
\<close>

datatype 'a js = Value 'a | Builtin builtin

definition property_or_str :: \<open>string property \<Rightarrow> string \<Rightarrow> string js\<close> where
  \<open>property_or_str x d =
     (case x of
        Own s \<Rightarrow> if s = [] then Value d else Value s
      | Inherited b \<Rightarrow> Builtin b
      | Missing \<Rightarrow> Value d)\<close>

definition property_or_num :: \<open>rat property \<Rightarrow> rat \<Rightarrow> rat js\<close> where
  \<open>property_or_num x d =
     (case x of
        Own v \<Rightarrow> if v = 0 then Value d else Value v
      | Inherited b \<Rightarrow> Builtin b
      | Missing \<Rightarrow> Value d)\<close>

text \<open>\<^verbatim>\<open>x || d\<close> on an optional string: the empty string and \<^verbatim>\<open>undefined\<close> are falsy.\<close>

definition or_str :: \<open>string option \<Rightarrow> string \<Rightarrow> string\<close> where
  \<open>or_str x d = (case x of None \<Rightarrow> d | Some s \<Rightarrow> if s = [] then d else s)\<close>

text \<open>\<^verbatim>\<open>x || y\<close> on two optional strings, the result still optional.\<close>

definition or_opt :: \<open>string option \<Rightarrow> string option \<Rightarrow> string option\<close> where
  \<open>or_opt x y = (case x of None \<Rightarrow> y | Some s \<Rightarrow> if s = [] then y else Some s)\<close>

subsection \<open>Numbers\<close>

text \<open>
  A finite number of JavaScript is a binary64 value, here the rational it denotes. Every
  arithmetic result is rounded to the nearest binary64 value, a tie going to the even
  significand. Take as unit the smallest positive value, one over \<open>2 ^ 1074\<close>: a magnitude
  below \<open>2 ^ 53\<close> units is rounded to a whole number of units, and a larger one to a
  multiple of \<open>2 ^ s\<close> units, where \<open>s + 53\<close> is the number of bits of its integer part. The
  numbers of the harness stay far below the overflow threshold, which is not modelled.
\<close>

definition round_even :: \<open>rat \<Rightarrow> int\<close> where
  \<open>round_even q =
     (let f = \<lfloor>q\<rfloor>; d = q - of_int f
      in if d < 1 / 2 then f else if 1 / 2 < d then f + 1 else if even f then f else f + 1)\<close>

definition scale1074 :: rat where
  \<open>scale1074 = 2 ^ 1074\<close>

definition float_shift :: \<open>rat \<Rightarrow> nat\<close> where
  \<open>float_shift a = nat (bitlen \<lfloor>a * scale1074\<rfloor> - 53)\<close>

definition fl_abs :: \<open>rat \<Rightarrow> rat\<close> where
  \<open>fl_abs a =
     of_int (round_even (a * scale1074 / 2 ^ float_shift a)) * 2 ^ float_shift a / scale1074\<close>

text \<open>\<open>fl x\<close> is the binary64 value nearest to \<open>x\<close>; a number literal \<^verbatim>\<open>0.9\<close> is \<open>fl (9 / 10)\<close>.\<close>

definition fl :: \<open>rat \<Rightarrow> rat\<close> where
  \<open>fl x = (if x < 0 then - fl_abs (- x) else fl_abs x)\<close>

definition is_double :: \<open>rat \<Rightarrow> bool\<close> where
  \<open>is_double x = (fl x = x)\<close>

datatype js_number = Number rat | NaN

text \<open>
  \<^verbatim>\<open>a * b\<close> where each operand is a number or a built-in: a built-in function or object
  converts to \<^verbatim>\<open>NaN\<close>, and so does the product.
\<close>

definition multiply :: \<open>rat js \<Rightarrow> rat js \<Rightarrow> js_number\<close> where
  \<open>multiply a b =
     (case a of
        Value x \<Rightarrow> (case b of Value y \<Rightarrow> Number (fl (x * y)) | Builtin c \<Rightarrow> NaN)
      | Builtin c \<Rightarrow> NaN)\<close>

text \<open>\<^verbatim>\<open>a + b\<close>, \<^verbatim>\<open>a * c\<close> and \<^verbatim>\<open>a / c\<close> on numbers, \<open>c\<close> a finite number and not zero.\<close>

definition plus_number :: \<open>js_number \<Rightarrow> js_number \<Rightarrow> js_number\<close> where
  \<open>plus_number a b =
     (case a of
        Number x \<Rightarrow> (case b of Number y \<Rightarrow> Number (fl (x + y)) | NaN \<Rightarrow> NaN)
      | NaN \<Rightarrow> NaN)\<close>

definition times_number :: \<open>js_number \<Rightarrow> rat \<Rightarrow> js_number\<close> where
  \<open>times_number a c = (case a of Number x \<Rightarrow> Number (fl (x * c)) | NaN \<Rightarrow> NaN)\<close>

definition over_number :: \<open>js_number \<Rightarrow> rat \<Rightarrow> js_number\<close> where
  \<open>over_number a c = (case a of Number x \<Rightarrow> Number (fl (x / c)) | NaN \<Rightarrow> NaN)\<close>

text \<open>
  \<^verbatim>\<open>Math.round\<close> gives the nearest integer, a tie going up, and \<^verbatim>\<open>NaN\<close> for \<^verbatim>\<open>NaN\<close>.
\<close>

definition Math_round :: \<open>js_number \<Rightarrow> js_number\<close> where
  \<open>Math_round a = (case a of Number x \<Rightarrow> Number (of_int \<lfloor>x + 1 / 2\<rfloor>) | NaN \<Rightarrow> NaN)\<close>

subsection \<open>Strings\<close>

text \<open>\<^verbatim>\<open>toUpperCase\<close> on ASCII text.\<close>

definition toUpperCase_char :: \<open>char \<Rightarrow> char\<close> where
  \<open>toUpperCase_char c =
     (let n = (of_char c :: nat)
      in if 97 \<le> n \<and> n \<le> 122 then char_of (n - 32) else c)\<close>

definition toUpperCase :: \<open>string \<Rightarrow> string\<close> where
  \<open>toUpperCase s = map toUpperCase_char s\<close>

text \<open>
  A string that holds code units above 255, such as an emoji or the text a user types, is a
  list of UTF-16 code units; \<open>units\<close> gives the code units of a \<^typ>\<open>string\<close>.
\<close>

type_synonym jsstring = \<open>nat list\<close>

definition units :: \<open>string \<Rightarrow> jsstring\<close> where
  \<open>units s = map of_char s\<close>

section \<open>The issue analyzer (src/utils/issue_analyzer.js)\<close>

record categoryInfo =
  description :: string
  businessImpact :: string
  severity :: string

text \<open>
  The issue handed to \<^verbatim>\<open>addIssue\<close>, with the fields the JSDoc of the method lists, all
  strings. The severity is optional: the code falls back on the category's severity when it
  is missing. The category and the description are always there: \<^verbatim>\<open>generateIssueTitle\<close>
  calls string methods on both.
\<close>

record issue =
  category :: string
  severity :: \<open>string option\<close>
  description :: string
  evidence :: string
  impact :: string
  recommendation :: string

text \<open>The enriched issue that \<^verbatim>\<open>addIssue\<close> stores: the fields above and the derived ones.\<close>

record enrichedIssue = issue +
  issue_id :: string
  timestamp :: string
  title :: jsstring
  businessPriority :: js_number
  estimatedFixTime :: \<open>string js\<close>
  affectedUserPercentage :: \<open>string js\<close>

record issueAnalyzer =
  issues :: \<open>enrichedIssue list\<close>
  categories :: \<open>(string \<times> categoryInfo) list\<close>

definition default_categories :: \<open>(string \<times> categoryInfo) list\<close> where
  \<open>default_categories =
    [(''ui_rendering'',
        \<lparr>categoryInfo.description = ''Visual and rendering issues with chatbot interface'',
         businessImpact = ''High - Users cannot see or interact with chatbot'',
         categoryInfo.severity = ''critical''\<rparr>),
     (''core_functionality'',
        \<lparr>categoryInfo.description = ''Basic chatbot operations not working'',
         businessImpact = ''Critical - Chatbot completely non-functional'',
         categoryInfo.severity = ''critical''\<rparr>),
     (''performance_consistency'',
        \<lparr>categoryInfo.description = ''Inconsistent response times or performance'',
         businessImpact = ''Medium - Poor user experience, potential abandonment'',
         categoryInfo.severity = ''moderate''\<rparr>),
     (''response_quality'',
        \<lparr>categoryInfo.description = ''Bot responses are irrelevant or unhelpful'',
         businessImpact = ''High - Users get poor support, may not convert'',
         categoryInfo.severity = ''moderate''\<rparr>),
     (''conversation_flow'',
        \<lparr>categoryInfo.description = ''Issues with multi-turn conversations'',
         businessImpact = ''Medium - Users cannot have complex interactions'',
         categoryInfo.severity = ''moderate''\<rparr>),
     (''input_validation'',
        \<lparr>categoryInfo.description = ''Problems handling various input types'',
         businessImpact = ''Low to Medium - Edge cases may cause issues'',
         categoryInfo.severity = ''minor''\<rparr>),
     (''accessibility'',
        \<lparr>categoryInfo.description = ''Accessibility compliance issues'',
         businessImpact = ''Medium - Excludes users with disabilities'',
         categoryInfo.severity = ''moderate''\<rparr>),
     (''security'',
        \<lparr>categoryInfo.description = ''Potential security vulnerabilities'',
         businessImpact = ''Critical - Risk of data breach or exploitation'',
         categoryInfo.severity = ''critical''\<rparr>),
     (''error_handling'',
        \<lparr>categoryInfo.description = ''Poor error handling and recovery'',
         businessImpact = ''Medium - Users may lose functionality during issues'',
         categoryInfo.severity = ''moderate''\<rparr>),
     (''integration'',
        \<lparr>categoryInfo.description = ''Issues with backend systems or third-party integrations'',
         businessImpact = ''High - May affect lead capture or data flow'',
         categoryInfo.severity = ''high''\<rparr>),
     (''mobile_compatibility'',
        \<lparr>categoryInfo.description = ''Issues specific to mobile devices'',
         businessImpact = ''High - Large portion of users on mobile'',
         categoryInfo.severity = ''high''\<rparr>),
     (''browser_compatibility'',
        \<lparr>categoryInfo.description = ''Issues specific to certain browsers'',
         businessImpact = ''Medium - Affects subset of users'',
         categoryInfo.severity = ''moderate''\<rparr>)]\<close>

text \<open>The constructor: no issue yet, and the category table.\<close>

definition IssueAnalyzer_new :: issueAnalyzer where
  \<open>IssueAnalyzer_new = \<lparr>issues = [], categories = default_categories\<rparr>\<close>

subsection \<open>Business priority\<close>

definition severityScores :: \<open>(string \<times> rat) list\<close> where
  \<open>severityScores = [(''critical'', 10), (''high'', 7), (''moderate'', 4), (''minor'', 2)]\<close>

text \<open>The multipliers are the binary64 values of the decimal literals.\<close>

definition categoryMultipliers :: \<open>(string \<times> rat) list\<close> where
  \<open>categoryMultipliers =
    [(''core_functionality'', 1),
     (''security'', 1),
     (''ui_rendering'', fl (9 / 10)),
     (''integration'', fl (8 / 10)),
     (''mobile_compatibility'', fl (8 / 10)),
     (''response_quality'', fl (7 / 10)),
     (''performance_consistency'', fl (6 / 10)),
     (''accessibility'', fl (5 / 10)),
     (''input_validation'', fl (4 / 10)),
     (''browser_compatibility'', fl (4 / 10)),
     (''conversation_flow'', fl (3 / 10)),
     (''error_handling'', fl (3 / 10))]\<close>

text \<open>
  \<^verbatim>\<open>severityScores[issue.severity] || 4\<close> reads the severity of the issue it is given; with
  no severity the key is \<^verbatim>\<open>undefined\<close>, which no object has. A severity or a category that
  names an inherited property gives a built-in function for the score or the multiplier,
  and the product is \<^verbatim>\<open>NaN\<close>.
\<close>

definition calculateBusinessPriority :: \<open>'a issue_scheme \<Rightarrow> js_number\<close> where
  \<open>calculateBusinessPriority i =
     (let baseScore = property_or_num (case issue.severity i of
                                         None \<Rightarrow> Missing
                                       | Some s \<Rightarrow> get_property severityScores s) 4;
          multiplier = property_or_num (get_property categoryMultipliers (category i)) (1 / 2)
      in Math_round (multiply baseScore multiplier))\<close>

subsection \<open>Static estimates\<close>

definition timeEstimates :: \<open>(string \<times> string) list\<close> where
  \<open>timeEstimates =
    [(''ui_rendering'', ''2-4 hours''),
     (''core_functionality'', ''1-3 days''),
     (''performance_consistency'', ''4-8 hours''),
     (''response_quality'', ''1-2 days''),
     (''conversation_flow'', ''1-2 days''),
     (''input_validation'', ''2-6 hours''),
     (''accessibility'', ''4-12 hours''),
     (''security'', ''1-5 days''),
     (''error_handling'', ''4-8 hours''),
     (''integration'', ''1-3 days''),
     (''mobile_compatibility'', ''4-8 hours''),
     (''browser_compatibility'', ''2-6 hours'')]\<close>

definition estimateFixTime :: \<open>'a issue_scheme \<Rightarrow> string js\<close> where
  \<open>estimateFixTime i = property_or_str (get_property timeEstimates (category i)) ''4-8 hours''\<close>

definition affectedPercentages :: \<open>(string \<times> string) list\<close> where
  \<open>affectedPercentages =
    [(''core_functionality'', ''100%''),
     (''ui_rendering'', ''100%''),
     (''security'', ''100%''),
     (''mobile_compatibility'', ''60-70%''),
     (''response_quality'', ''80-90%''),
     (''performance_consistency'', ''50-80%''),
     (''integration'', ''70-90%''),
     (''accessibility'', ''5-15%''),
     (''browser_compatibility'', ''10-30%''),
     (''conversation_flow'', ''30-50%''),
     (''input_validation'', ''5-20%''),
     (''error_handling'', ''20-40%'')]\<close>

definition estimateAffectedUsers :: \<open>'a issue_scheme \<Rightarrow> string js\<close> where
  \<open>estimateAffectedUsers i =
     property_or_str (get_property affectedPercentages (category i)) ''10-30%''\<close>

subsection \<open>The business priority, as the specification words it\<close>

text \<open>
  The score of a severity: 10 for \<^verbatim>\<open>critical\<close>, 7 for \<^verbatim>\<open>high\<close>, 4 for \<^verbatim>\<open>moderate\<close>, 2 for
  \<^verbatim>\<open>minor\<close>, and 4 for anything else.
\<close>

definition severityScore :: \<open>string option \<Rightarrow> rat\<close> where
  \<open>severityScore sev =
     (if sev = Some ''critical'' then 10
      else if sev = Some ''high'' then 7
      else if sev = Some ''moderate'' then 4
      else if sev = Some ''minor'' then 2
      else 4)\<close>

text \<open>The multiplier of a category: its constant in the table, one half when it has none.\<close>

definition categoryMultiplier :: \<open>string \<Rightarrow> rat\<close> where
  \<open>categoryMultiplier c = (case map_of categoryMultipliers c of Some v \<Rightarrow> v | None \<Rightarrow> 1 / 2)\<close>

text \<open>The priority the specification gives: the rounded product of the two.\<close>

definition specified_priority :: \<open>string option \<Rightarrow> string \<Rightarrow> js_number\<close> where
  \<open>specified_priority sev c = Math_round (Number (fl (severityScore sev * categoryMultiplier c)))\<close>

subsection \<open>Adding an issue\<close>

text \<open>
  What \<^verbatim>\<open>addIssue\<close> reads from its environment: \<^verbatim>\<open>new Date().toISOString()\<close>,
  \<^verbatim>\<open>Date.now().toString(36)\<close> and \<^verbatim>\<open>Math.random().toString(36)\<close>, all ASCII text.
\<close>

record clockAndRandom =
  isoNow :: string
  nowBase36 :: string
  randomBase36 :: string

text \<open>\<^verbatim>\<open>s.substr(start, len)\<close> for non-negative arguments.\<close>

definition substr :: \<open>string \<Rightarrow> nat \<Rightarrow> nat \<Rightarrow> string\<close> where
  \<open>substr s start len = take len (drop start s)\<close>

definition generateIssueId :: \<open>clockAndRandom \<Rightarrow> string\<close> where
  \<open>generateIssueId env =
     (let timestamp = nowBase36 env;
          random = substr (randomBase36 env) 2 5
      in toUpperCase (''ISSUE-'' @ timestamp @ ''-'' @ random))\<close>

text \<open>The class \<^verbatim>\<open>\w\<close> of a regular expression without the unicode flag.\<close>

definition is_word_char :: \<open>char \<Rightarrow> bool\<close> where
  \<open>is_word_char c =
     (let n = (of_char c :: nat)
      in (48 \<le> n \<and> n \<le> 57) \<or> (65 \<le> n \<and> n \<le> 90) \<or> (97 \<le> n \<and> n \<le> 122) \<or> n = 95)\<close>

text \<open>\<^verbatim>\<open>.replace(/_/g, ' ')\<close>\<close>

definition replace_underscores :: \<open>string \<Rightarrow> string\<close> where
  \<open>replace_underscores s = map (\<lambda>c. if c = CHR ''_'' then CHR '' '' else c) s\<close>

text \<open>
  \<^verbatim>\<open>.replace(/\b\w/g, l => l.toUpperCase())\<close>: a word character is put in upper case when
  it starts the string or follows a character that is not a word character. The flag says
  whether the character before is a word character.
\<close>

fun capitalize_words :: \<open>bool \<Rightarrow> string \<Rightarrow> string\<close> where
  \<open>capitalize_words prev [] = []\<close>
| \<open>capitalize_words prev (c # cs) =
     (if is_word_char c \<and> \<not> prev then toUpperCase_char c else c)
       # capitalize_words (is_word_char c) cs\<close>

text \<open>
  The four prefixes are emoji, given by their UTF-16 code units: U+1F6A8; U+26A0 U+FE0F;
  U+26A1; U+2139 U+FE0F. \<^verbatim>\<open>substring(0, 60)\<close> and \<^verbatim>\<open>length\<close> count code units.
\<close>

definition severityPrefix :: \<open>string option \<Rightarrow> jsstring\<close> where
  \<open>severityPrefix sev =
     (if sev = Some ''critical'' then [0xD83D, 0xDEA8]
      else if sev = Some ''high'' then [0x26A0, 0xFE0F]
      else if sev = Some ''moderate'' then [0x26A1]
      else [0x2139, 0xFE0F])\<close>

definition generateIssueTitle :: \<open>'a issue_scheme \<Rightarrow> jsstring\<close> where
  \<open>generateIssueTitle i =
     (let categoryName = capitalize_words False (replace_underscores (category i))
      in severityPrefix (issue.severity i) @ units '' '' @ units categoryName @ units '': ''
           @ units (take 60 (issue.description i))
           @ (if length (issue.description i) > 60 then units ''...'' else []))\<close>

text \<open>
  \<^verbatim>\<open>addIssue\<close> returns the new id, the analyzer with the enriched issue pushed at the end
  of the list, and the lines written to \<^verbatim>\<open>console.error\<close>. The stored severity is
  \<^verbatim>\<open>issue.severity || this.categories[issue.category]?.severity || 'moderate'\<close>; the lookup
  of the category goes by the keys of the table, since the built-in that a category naming
  an inherited property would give has no property \<^verbatim>\<open>severity\<close>.
\<close>

definition addIssue ::
  \<open>clockAndRandom \<Rightarrow> issueAnalyzer \<Rightarrow> issue \<Rightarrow> string \<times> issueAnalyzer \<times> jsstring list\<close> where
  \<open>addIssue env a i =
     (let timestamp = isoNow env;
          issueId = generateIssueId env;
          enrichedIssue =
            \<lparr>category = category i,
             severity = Some (or_str (or_opt (issue.severity i)
                          (map_option categoryInfo.severity (map_of (categories a) (category i))))
                        ''moderate''),
             description = issue.description i,
             evidence = evidence i,
             impact = impact i,
             recommendation = recommendation i,
             issue_id = issueId,
             timestamp = timestamp,
             title = generateIssueTitle i,
             businessPriority = calculateBusinessPriority i,
             estimatedFixTime = estimateFixTime i,
             affectedUserPercentage = estimateAffectedUsers i\<rparr>;
          a' = a\<lparr>issues := issues a @ [enrichedIssue]\<rparr>;
          console =
            (if issue.severity enrichedIssue = Some ''critical''
             then [[0xD83D, 0xDEA8] @ units '' CRITICAL ISSUE: '' @ title enrichedIssue]
             else [])
      in (issueId, a', console))\<close>

subsection \<open>Queries and the summary\<close>

definition getIssuesBySeverity :: \<open>issueAnalyzer \<Rightarrow> string \<Rightarrow> enrichedIssue list\<close> where
  \<open>getIssuesBySeverity a sev = filter (\<lambda>i. issue.severity i = Some sev) (issues a)\<close>

definition getIssuesByCategory :: \<open>issueAnalyzer \<Rightarrow> string \<Rightarrow> enrichedIssue list\<close> where
  \<open>getIssuesByCategory a c = filter (\<lambda>i. category i = c) (issues a)\<close>

record severityCounts =
  critical :: nat
  high :: nat
  moderate :: nat
  minor :: nat

record summary =
  totalIssues :: nat
  severityBreakdown :: severityCounts
  categoryBreakdown :: \<open>(string \<times> nat) list\<close>
  averageBusinessPriority :: js_number
  criticalIssueCount :: nat
  needsImmediateAttention :: nat
  overallRiskLevel :: string

text \<open>
  \<^verbatim>\<open>generateSummary\<close> calls \<^verbatim>\<open>this.calculateOverallRiskLevel()\<close> for the last property of
  the object it returns, and \<^verbatim>\<open>calculateOverallRiskLevel\<close> starts with
  \<^verbatim>\<open>this.generateSummary()\<close>. The first argument is the number of call frames the engine
  still has room for: a call with no room left throws \<^verbatim>\<open>RangeError\<close> (maximum call stack
  size exceeded), and neither method catches an exception.
\<close>

fun generateSummary :: \<open>nat \<Rightarrow> issueAnalyzer \<Rightarrow> js_error + summary\<close>
  and calculateOverallRiskLevel :: \<open>nat \<Rightarrow> issueAnalyzer \<Rightarrow> js_error + string\<close> where
  \<open>generateSummary 0 a = Inl RangeError\<close>
| \<open>generateSummary (Suc frames) a =
     (let total = length (issues a);
          bySeverity =
            \<lparr>critical = length (getIssuesBySeverity a ''critical''),
             high = length (getIssuesBySeverity a ''high''),
             moderate = length (getIssuesBySeverity a ''moderate''),
             minor = length (getIssuesBySeverity a ''minor'')\<rparr>;
          byCategory =
            map (\<lambda>c. (c, length (getIssuesByCategory a c))) (map fst (categories a));
          averagePriority =
            (if length (issues a) > 0
             then over_number
                    (foldl (\<lambda>sum i. plus_number sum (businessPriority i)) (Number 0) (issues a))
                    (of_nat (length (issues a)))
             else Number 0)
      in case calculateOverallRiskLevel frames a of
           Inl e \<Rightarrow> Inl e
         | Inr risk \<Rightarrow>
             Inr \<lparr>totalIssues = total,
                  severityBreakdown = bySeverity,
                  categoryBreakdown = byCategory,
                  averageBusinessPriority =
                    over_number (Math_round (times_number averagePriority 10)) 10,
                  criticalIssueCount = critical bySeverity,
                  needsImmediateAttention = critical bySeverity + high bySeverity,
                  overallRiskLevel = risk\<rparr>)\<close>
| \<open>calculateOverallRiskLevel 0 a = Inl RangeError\<close>
| \<open>calculateOverallRiskLevel (Suc frames) a =
     (case generateSummary frames a of
        Inl e \<Rightarrow> Inl e
      | Inr summary \<Rightarrow>
          Inr (if critical (severityBreakdown summary) > 0 then ''CRITICAL''
               else if high (severityBreakdown summary) > 2 \<or> totalIssues summary > 10
                 then ''HIGH''
               else if high (severityBreakdown summary) > 0 \<or> totalIssues summary > 5
                 then ''MEDIUM''
               else ''LOW''))\<close>

section \<open>Selector resolution (src/config/config_selectors.js)\<close>

type_synonym selectorTable = \<open>(string \<times> (string \<times> string) list) list\<close>

definition HUBSPOT_SELECTORS :: selectorTable where
  \<open>HUBSPOT_SELECTORS =
    [(''widget'',
        [(''container'', ''[data-test-id="chat-widget"]''),
         (''launcher'', ''[data-test-id="chat-launcher"]''),
         (''iframe'', ''iframe[title*="chat"]''),
         (''minimized'', ''[data-test-id="chat-widget-minimized"]''),
         (''expanded'', ''[data-test-id="chat-widget-expanded"]'')]),
     (''chat'',
        [(''container'', ''[data-test-id="chat-container"]''),
         (''header'', ''[data-test-id="chat-header"]''),
         (''messagesArea'', ''[data-test-id="chat-messages"]''),
         (''inputArea'', ''[data-test-id="chat-input-area"]''),
         (''input'', ''[data-test-id="chat-input"]''),
         (''sendButton'', ''[data-test-id="chat-send-button"]''),
         (''closeButton'', ''[data-test-id="chat-close-button"]''),
         (''minimizeButton'', ''[data-test-id="chat-minimize-button"]'')]),
     (''messages'',
        [(''message'', ''[data-test-id="chat-message"]''),
         (''botMessage'', ''[data-test-id="bot-message"]''),
         (''userMessage'', ''[data-test-id="user-message"]''),
         (''timestamp'', ''[data-test-id="message-timestamp"]''),
         (''avatar'', ''[data-test-id="message-avatar"]''),
         (''content'', ''[data-test-id="message-content"]''),
         (''typing'', ''[data-test-id="typing-indicator"]'')]),
     (''interactive'',
        [(''quickReplies'', ''[data-test-id="quick-replies"]''),
         (''quickReply'', ''[data-test-id="quick-reply"]''),
         (''buttons'', ''[data-test-id="chat-button"]''),
         (''links'', ''[data-test-id="chat-link"]''),
         (''forms'', ''[data-test-id="chat-form"]''),
         (''formField'', ''[data-test-id="form-field"]''),
         (''submitButton'', ''[data-test-id="form-submit"]'')]),
     (''status'',
        [(''online'', ''[data-test-id="agent-online"]''),
         (''offline'', ''[data-test-id="agent-offline"]''),
         (''typing'', ''[data-test-id="agent-typing"]''),
         (''connecting'', ''[data-test-id="chat-connecting"]''),
         (''connected'', ''[data-test-id="chat-connected"]''),
         (''error'', ''[data-test-id="chat-error"]'')]),
     (''fallback'',
        [(''widget'', ''#hubspot-messages-iframe-container, .widget-container, [class*="chat-widget"]''),
         (''iframe'', ''iframe[src*="hubspot"], iframe[title*="chat"], iframe[title*="Chat"]''),
         (''input'', ''input[placeholder*="message"], textarea[placeholder*="message"], [contenteditable="true"]''),
         (''sendButton'', ''button[type="submit"], button[aria-label*="send"], [data-testid*="send"]''),
         (''messages'', ''[class*="message"], [class*="chat-message"], [role="log"]''),
         (''botMessage'', ''[class*="bot"], [class*="agent"], [data-from="bot"]''),
         (''userMessage'', ''[class*="user"], [class*="visitor"], [data-from="user"]'')])]\<close>

definition ALTERNATIVE_SELECTORS :: selectorTable where
  \<open>ALTERNATIVE_SELECTORS =
    [(''intercom'',
        [(''widget'', ''.intercom-lightweight-app''),
         (''launcher'', ''.intercom-launcher''),
         (''iframe'', ''#intercom-frame'')]),
     (''drift'',
        [(''widget'', ''#drift-widget''),
         (''launcher'', ''.drift-open-chat''),
         (''iframe'', ''#drift-frame-chat'')]),
     (''zendesk'',
        [(''widget'', ''#webWidget''),
         (''launcher'', ''.zEWidget-launcher''),
         (''iframe'', ''iframe[title="Widget chat window"]'')]),
     (''generic'',
        [(''widget'', ''[id*="chat"], [class*="chat"], [data-widget="chat"]''),
         (''iframe'', ''iframe[src*="chat"], iframe[title*="support"]''),
         (''launcher'', ''[aria-label*="chat"], [title*="chat"], .chat-launcher'')])]\<close>

text \<open>
  The values a selector lookup can give. \<^verbatim>\<open>this.primarySelectors[category]?.[element]\<close>
  reads two properties in a row: when the category names an inherited property, the second
  read is on a built-in function or on \<^verbatim>\<open>Object.prototype\<close>. What that read gives (a string
  such as the \<^verbatim>\<open>name\<close> of the function, a number, another function, \<^verbatim>\<open>undefined\<close>) is the
  engine's matter, and the engine is an argument of the model: it answers the read of a
  property of a built-in. One case is fixed by ECMAScript: a built-in function has no
  \<^verbatim>\<open>caller\<close> and no \<^verbatim>\<open>arguments\<close> of its own (the clause on forbidden extensions), and
  the accessors of these names that it inherits from \<^verbatim>\<open>Function.prototype\<close> have the
  function \<^verbatim>\<open>%ThrowTypeError%\<close> as getter (\<^verbatim>\<open>AddRestrictedFunctionProperties\<close>): the read
  throws a \<^verbatim>\<open>TypeError\<close>.
\<close>

datatype js_value =
    JUndefined
  | JNull
  | JBoolean bool
  | JString string
  | JNumber rat
  | JNaN
  | JBuiltin builtin
  | JObject nat

type_synonym engine = \<open>builtin \<Rightarrow> string \<Rightarrow> js_value\<close>

definition restricted :: \<open>string \<Rightarrow> bool\<close> where
  \<open>restricted key \<longleftrightarrow> key = ''caller'' \<or> key = ''arguments''\<close>

definition read_builtin :: \<open>engine \<Rightarrow> builtin \<Rightarrow> string \<Rightarrow> js_error + js_value\<close> where
  \<open>read_builtin rt b key =
     (case b of
        BuiltinFunction f \<Rightarrow> if restricted key then Inl TypeError else Inr (rt b key)
      | ObjectPrototype \<Rightarrow> Inr (rt b key))\<close>

text \<open>Objects and functions are truthy (\<^const>\<open>JObject\<close> stands for any other of them).\<close>

definition truthy :: \<open>js_value \<Rightarrow> bool\<close> where
  \<open>truthy v =
     (case v of
        JUndefined \<Rightarrow> False
      | JNull \<Rightarrow> False
      | JBoolean b \<Rightarrow> b
      | JString s \<Rightarrow> s \<noteq> []
      | JNumber x \<Rightarrow> x \<noteq> 0
      | JNaN \<Rightarrow> False
      | JBuiltin b \<Rightarrow> True
      | JObject n \<Rightarrow> True)\<close>

definition to_value :: \<open>string property \<Rightarrow> js_value\<close> where
  \<open>to_value p = (case p of Own s \<Rightarrow> JString s | Inherited b \<Rightarrow> JBuiltin b | Missing \<Rightarrow> JUndefined)\<close>

text \<open>
  \<^verbatim>\<open>table[category]?.[element]\<close>: the entry of the table, an inherited value, the engine's
  answer when the category is inherited, or \<^verbatim>\<open>undefined\<close> when the table has nothing under
  the category.
\<close>

definition read2 :: \<open>engine \<Rightarrow> selectorTable \<Rightarrow> string \<Rightarrow> string \<Rightarrow> js_error + js_value\<close> where
  \<open>read2 rt t cat element =
     (case get_property t cat of
        Own es \<Rightarrow> Inr (to_value (get_property es element))
      | Inherited b \<Rightarrow> read_builtin rt b element
      | Missing \<Rightarrow> Inr JUndefined)\<close>

text \<open>
  What the page answers to \<^verbatim>\<open>isVisible\<close> on a locator: \<^verbatim>\<open>true\<close>, \<^verbatim>\<open>false\<close>, or an
  exception. \<^verbatim>\<open>page.locator(s)\<close> and \<^verbatim>\<open>page.locator(s).first()\<close> are two locators, and
  \<open>FirstOf v\<close> is \<^verbatim>\<open>page.locator(v).first()\<close> for a selector \<open>v\<close> that is not a string. A page
  is the answers it gives during one call of the method that probes it.
\<close>

datatype locator = Locator string | First string | FirstOf js_value

datatype probe = Visible | Hidden | Throws

type_synonym page = \<open>locator \<Rightarrow> probe\<close>

record selectorManager =
  primarySelectors :: selectorTable
  fallbackSelectors :: selectorTable
  discoveredSelectors :: \<open>string \<rightharpoonup> js_value\<close>

definition SelectorManager_new :: selectorManager where
  \<open>SelectorManager_new =
     \<lparr>primarySelectors = HUBSPOT_SELECTORS,
      fallbackSelectors = ALTERNATIVE_SELECTORS,
      discoveredSelectors = Map.empty\<rparr>\<close>

text \<open>\<^verbatim>\<open>isElementVisible\<close> catches every exception and answers \<^verbatim>\<open>false\<close> then.\<close>

definition isElementVisible :: \<open>page \<Rightarrow> js_value \<Rightarrow> bool\<close> where
  \<open>isElementVisible page selector =
     (case page (case selector of JString s \<Rightarrow> First s | _ \<Rightarrow> FirstOf selector) of
        Visible \<Rightarrow> True
      | Hidden \<Rightarrow> False
      | Throws \<Rightarrow> False)\<close>

text \<open>
  The test \<^verbatim>\<open>sel && await this.isElementVisible(page, sel)\<close>: the selector when the test
  holds.
\<close>

definition working :: \<open>page \<Rightarrow> js_value \<Rightarrow> js_value option\<close> where
  \<open>working page sel = (if truthy sel \<and> isElementVisible page sel then Some sel else None)\<close>

text \<open>The loop over \<^verbatim>\<open>Object.entries(this.fallbackSelectors)\<close>.\<close>

fun tryFrameworks :: \<open>page \<Rightarrow> string \<Rightarrow> selectorTable \<Rightarrow> js_value option\<close> where
  \<open>tryFrameworks page element [] = None\<close>
| \<open>tryFrameworks page element ((framework, selectors) # rest) =
     (case working page (to_value (get_property selectors element)) of
        Some altSelector \<Rightarrow> Some altSelector
      | None \<Rightarrow> tryFrameworks page element rest)\<close>

text \<open>
  \<^verbatim>\<open>getSelector\<close> returns the selector or the exception, and the manager with its
  \<^verbatim>\<open>discoveredSelectors\<close> map as the call leaves it. An exception of the first read is not
  caught. \<^verbatim>\<open>this.primarySelectors.fallback\<close> is a table of the literal; were it missing,
  reading a property of it would be a \<^verbatim>\<open>TypeError\<close>.
\<close>

definition getSelector ::
  \<open>engine \<Rightarrow> selectorManager \<Rightarrow> page \<Rightarrow> string \<Rightarrow> string
     \<Rightarrow> (js_error + js_value) \<times> selectorManager\<close> where
  \<open>getSelector rt m page cat element =
     (case read2 rt (primarySelectors m) cat element of
        Inl err \<Rightarrow> (Inl err, m)
      | Inr primarySelector \<Rightarrow>
         (case working page primarySelector of
            Some s \<Rightarrow> (Inr s, m)
          | None \<Rightarrow>
             (case get_property (primarySelectors m) ''fallback'' of
                Missing \<Rightarrow> (Inl TypeError, m)
              | Inherited b \<Rightarrow> (Inl TypeError, m)
              | Own fallback \<Rightarrow>
                 (case working page (to_value (get_property fallback element)) of
                    Some fallbackSelector \<Rightarrow>
                      (Inr fallbackSelector,
                       m\<lparr>discoveredSelectors :=
                           (discoveredSelectors m)(cat @ ''.'' @ element \<mapsto> fallbackSelector)\<rparr>)
                  | None \<Rightarrow>
                     (case tryFrameworks page element (fallbackSelectors m) of
                        Some altSelector \<Rightarrow>
                          (Inr altSelector,
                           m\<lparr>discoveredSelectors :=
                               (discoveredSelectors m)(cat @ ''.'' @ element \<mapsto> altSelector)\<rparr>)
                      | None \<Rightarrow>
                          (Inl (Error (''No working selector found for '' @ cat @ ''.'' @ element)),
                           m))))))\<close>

subsection \<open>The tiers, as the specification lists them\<close>

text \<open>
  The six tiers of one element, in the order of the specification: the primary selector
  \<^verbatim>\<open>HUBSPOT_SELECTORS[category][element]\<close>, the CSS fallback
  \<^verbatim>\<open>HUBSPOT_SELECTORS.fallback[element]\<close>, the three third-party frameworks, the generic
  heuristic. A tier with nothing for the element is \<^verbatim>\<open>undefined\<close>.
\<close>

definition selector_tiers :: \<open>engine \<Rightarrow> string \<Rightarrow> string \<Rightarrow> (js_error + js_value) list\<close> where
  \<open>selector_tiers rt cat element =
     [read2 rt HUBSPOT_SELECTORS cat element,
      read2 rt HUBSPOT_SELECTORS ''fallback'' element,
      read2 rt ALTERNATIVE_SELECTORS ''intercom'' element,
      read2 rt ALTERNATIVE_SELECTORS ''drift'' element,
      read2 rt ALTERNATIVE_SELECTORS ''zendesk'' element,
      read2 rt ALTERNATIVE_SELECTORS ''generic'' element]\<close>

text \<open>A tier gives a selector whose element is visible.\<close>

definition visible_tier :: \<open>page \<Rightarrow> js_error + js_value \<Rightarrow> bool\<close> where
  \<open>visible_tier page t =
     (case t of Inl err \<Rightarrow> False | Inr v \<Rightarrow> truthy v \<and> isElementVisible page v)\<close>

text \<open>
  The first of a list of selector values that passes the test of \<^const>\<open>working\<close>, the values
  taken in order.
\<close>

fun first_working :: \<open>page \<Rightarrow> js_value list \<Rightarrow> js_value option\<close> where
  \<open>first_working page [] = None\<close>
| \<open>first_working page (t # ts) =
     (case working page t of Some s \<Rightarrow> Some s | None \<Rightarrow> first_working page ts)\<close>

section \<open>The chatbot helper\<close>

subsection \<open>Open or closed\<close>

definition openIndicators :: \<open>string list\<close> where
  \<open>openIndicators =
    [''[data-test-id*="chat-container"]'',
     ''[data-test-id*="chat-input"]'',
     ''[class*="chat-open"]'',
     ''[class*="chat-expanded"]'',
     ''textarea[placeholder*="message"]'',
     ''input[placeholder*="message"]'',
     ''[contenteditable="true"]'']\<close>

text \<open>
  The loop of \<^verbatim>\<open>isChatbotOpen\<close>: the first indicator that is visible ends it with
  \<^verbatim>\<open>true\<close>; an exception of the probe is caught and the loop goes on.
\<close>

fun anyIndicatorVisible :: \<open>page \<Rightarrow> string list \<Rightarrow> bool\<close> where
  \<open>anyIndicatorVisible page [] = False\<close>
| \<open>anyIndicatorVisible page (selector # rest) =
     (case page (Locator selector) of
        Visible \<Rightarrow> True
      | Hidden \<Rightarrow> anyIndicatorVisible page rest
      | Throws \<Rightarrow> anyIndicatorVisible page rest)\<close>

definition isChatbotOpen :: \<open>page \<Rightarrow> bool\<close> where
  \<open>isChatbotOpen page = anyIndicatorVisible page openIndicators\<close>

definition isChatbotClosed :: \<open>page \<Rightarrow> bool\<close> where
  \<open>isChatbotClosed page = (\<not> isChatbotOpen page)\<close>

subsection \<open>Sending a message\<close>

text \<open>
  The message is a sequence of UTF-16 code units. \<^verbatim>\<open>String.prototype.trim\<close> removes the white space and the line terminators of
  ECMAScript from both ends.
\<close>

definition is_js_whitespace :: \<open>nat \<Rightarrow> bool\<close> where
  \<open>is_js_whitespace c =
     (c \<in> set [0x09, 0x0A, 0x0B, 0x0C, 0x0D, 0x20, 0xA0, 0x1680,
               0x2000, 0x2001, 0x2002, 0x2003, 0x2004, 0x2005, 0x2006, 0x2007,
               0x2008, 0x2009, 0x200A, 0x2028, 0x2029, 0x202F, 0x205F, 0x3000, 0xFEFF])\<close>

definition trim :: \<open>jsstring \<Rightarrow> jsstring\<close> where
  \<open>trim s = rev (dropWhile is_js_whitespace (rev (dropWhile is_js_whitespace s)))\<close>

text \<open>
  The calls \<^verbatim>\<open>sendMessage\<close> makes on the page. Unlike a probe, an action changes the
  page: a browser gives, for a page state, the answer to a probe, and for an action the
  next page state together with the message of the exception if the action throws.
\<close>

datatype pageCall =
    IsVisible locator
  | Clear locator
  | Fill locator jsstring
  | Click locator
  | Press locator string

record 'p browser =
  visible :: \<open>'p \<Rightarrow> locator \<Rightarrow> probe\<close>
  perform :: \<open>'p \<Rightarrow> pageCall \<Rightarrow> string option \<times> 'p\<close>

record historyEntry =
  entry_type :: string
  content :: jsstring
  entry_timestamp :: int

record chatbotHelper =
  lastMessageTimestamp :: int
  messageHistory :: \<open>historyEntry list\<close>

definition ChatbotHelper_new :: chatbotHelper where
  \<open>ChatbotHelper_new = \<lparr>lastMessageTimestamp = 0, messageHistory = []\<rparr>\<close>

datatype sendResult = ReturnedFalse | Elapsed int

definition inputSelectors :: \<open>string list\<close> where
  \<open>inputSelectors =
    [''[data-test-id*="chat-input"]'',
     ''textarea[placeholder*="message"]'',
     ''input[placeholder*="message"]'',
     ''[contenteditable="true"]'',
     ''textarea'',
     ''input[type="text"]'']\<close>

definition sendSelectors :: \<open>string list\<close> where
  \<open>sendSelectors =
    [''[data-test-id*="send"]'',
     ''[aria-label*="send"]'',
     ''[title*="send"]'',
     ''button[type="submit"]'',
     ''.send-button'',
     ''[class*="send"]'']\<close>

text \<open>The search for the input field: the field found, and the probes made.\<close>

fun findInputField :: \<open>'p browser \<Rightarrow> 'p \<Rightarrow> string list \<Rightarrow> locator option \<times> pageCall list\<close> where
  \<open>findInputField b p [] = (None, [])\<close>
| \<open>findInputField b p (selector # rest) =
     (case visible b p (First selector) of
        Visible \<Rightarrow> (Some (First selector), [IsVisible (First selector)])
      | Hidden \<Rightarrow>
          (case findInputField b p rest of
             (found, calls) \<Rightarrow> (found, IsVisible (First selector) # calls))
      | Throws \<Rightarrow>
          (case findInputField b p rest of
             (found, calls) \<Rightarrow> (found, IsVisible (First selector) # calls)))\<close>

text \<open>
  The search for the send button: a visible button is clicked; a click that throws is
  caught and the loop goes on with the next selector.
\<close>

fun clickSendButton :: \<open>'p browser \<Rightarrow> 'p \<Rightarrow> string list \<Rightarrow> bool \<times> 'p \<times> pageCall list\<close> where
  \<open>clickSendButton b p [] = (False, p, [])\<close>
| \<open>clickSendButton b p (selector # rest) =
     (case visible b p (Locator selector) of
        Visible \<Rightarrow>
          (case perform b p (Click (Locator selector)) of
             (None, p') \<Rightarrow> (True, p', [IsVisible (Locator selector), Click (Locator selector)])
           | (Some msg, p') \<Rightarrow>
               (case clickSendButton b p' rest of
                  (sent, p'', calls) \<Rightarrow>
                    (sent, p'', IsVisible (Locator selector) # Click (Locator selector) # calls)))
      | Hidden \<Rightarrow>
          (case clickSendButton b p rest of
             (sent, p'', calls) \<Rightarrow> (sent, p'', IsVisible (Locator selector) # calls))
      | Throws \<Rightarrow>
          (case clickSendButton b p rest of
             (sent, p'', calls) \<Rightarrow> (sent, p'', IsVisible (Locator selector) # calls)))\<close>

text \<open>
  \<^verbatim>\<open>sendMessage\<close>. The argument \<open>now\<close> gives the successive readings of \<^verbatim>\<open>Date.now()\<close>.
  The result is what the method returns or throws, the helper and the page as the call
  leaves them, and the calls made on the page, in order. Every exception thrown inside the
  outer \<^verbatim>\<open>try\<close> is thrown again with the prefix \<^verbatim>\<open>Failed to send message:\<close>. After the
  \<^verbatim>\<open>Enter\<close> key \<^verbatim>\<open>messageSent\<close> is always true, so the last \<^verbatim>\<open>throw\<close> of the method is never
  reached.
\<close>

definition sendMessage ::
  \<open>'p browser \<Rightarrow> (nat \<Rightarrow> int) \<Rightarrow> chatbotHelper \<Rightarrow> 'p \<Rightarrow> jsstring
     \<Rightarrow> (js_error + sendResult) \<times> chatbotHelper \<times> 'p \<times> pageCall list\<close> where
  \<open>sendMessage b now h p message =
     (if message = [] \<or> length (trim message) = 0 then (Inr ReturnedFalse, h, p, [])
      else
        let startTime = now 0 in
        case findInputField b p inputSelectors of
          (None, calls) \<Rightarrow>
            (Inl (Error (''Failed to send message: '' @ ''Could not find input field'')), h, p, calls)
        | (Some inputField, calls) \<Rightarrow>
           (case perform b p (Clear inputField) of
              (Some msg, p1) \<Rightarrow>
                (Inl (Error (''Failed to send message: '' @ msg)), h, p1,
                 calls @ [Clear inputField])
            | (None, p1) \<Rightarrow>
               (case perform b p1 (Fill inputField message) of
                  (Some msg, p2) \<Rightarrow>
                    (Inl (Error (''Failed to send message: '' @ msg)), h, p2,
                     calls @ [Clear inputField, Fill inputField message])
                | (None, p2) \<Rightarrow>
                   (case clickSendButton b p2 sendSelectors of
                      (messageSent, p3, clicks) \<Rightarrow>
                       (case (if messageSent then (None, p3, [])
                              else (case perform b p3 (Press inputField ''Enter'') of
                                      (r, p4) \<Rightarrow> (r, p4, [Press inputField ''Enter'']))) of
                          (Some msg, p4, presses) \<Rightarrow>
                            (Inl (Error (''Failed to send message: '' @ msg)), h, p4,
                             calls @ [Clear inputField, Fill inputField message] @ clicks @ presses)
                        | (None, p4, presses) \<Rightarrow>
                            (Inr (Elapsed (now 3 - startTime)),
                             h\<lparr>messageHistory := messageHistory h @
                                  [\<lparr>entry_type = ''user'', content = message,
                                    entry_timestamp = now 1\<rparr>],
                               lastMessageTimestamp := now 2\<rparr>,
                             p4,
                             calls @ [Clear inputField, Fill inputField message]
                               @ clicks @ presses))))))\<close>

section \<open>The load script (src/tests/k6/k6_load_testing.js)\<close>

record scenario =
  category :: string
  messages :: \<open>string list\<close>
  weight :: rat

definition TEST_SCENARIOS :: \<open>scenario list\<close> where
  \<open>TEST_SCENARIOS =
    [\<lparr>category = ''greeting'',
      messages = [''Hello'', ''Hi there'', ''Good morning'', ''Hey''],
      weight = 30\<rparr>,
     \<lparr>category = ''pricing_inquiry'',
      messages = [''What are your pricing plans?'', ''How much does it cost?'',
                  ''I want to know about pricing'', ''Can you tell me the price?''],
      weight = 25\<rparr>,
     \<lparr>category = ''product_info'',
      messages = [''Tell me about your products'', ''What features do you offer?'',
                  ''I need information about your services'', ''What can your platform do?''],
      weight = 20\<rparr>,
     \<lparr>category = ''support'',
      messages = [''I need help'', ''I have a problem'', ''Can you assist me?'',
                  ''I need support''],
      weight = 15\<rparr>,
     \<lparr>category = ''contact'',
      messages = [''How can I contact sales?'', ''I want to speak to someone'',
                  ''Can I talk to a human?'', ''Connect me with an agent''],
      weight = 10\<rparr>]\<close>

text \<open>The object \<^verbatim>\<open>getRandomScenario\<close> returns; reading an array out of range gives
  \<^verbatim>\<open>undefined\<close>.\<close>

record chosen =
  category :: string
  message :: \<open>string option\<close>

definition array_at :: \<open>'a list \<Rightarrow> int \<Rightarrow> 'a option\<close> where
  \<open>array_at xs i = (if 0 \<le> i \<and> i < int (length xs) then Some (xs ! nat i) else None)\<close>

text \<open>
  The loop over the scenarios: \<open>random\<close> is what is left of the first draw, \<open>r2\<close> is the
  second value of \<^verbatim>\<open>Math.random()\<close>, which picks the message. Each subtraction and the
  product under \<^verbatim>\<open>Math.floor\<close> are rounded to binary64. \<^const>\<open>None\<close> when the loop ends
  without returning.
\<close>

fun pickScenario :: \<open>rat \<Rightarrow> rat \<Rightarrow> scenario list \<Rightarrow> chosen option\<close> where
  \<open>pickScenario random r2 [] = None\<close>
| \<open>pickScenario random r2 (sc # rest) =
     (let random' = fl (random - weight sc)
      in if random' \<le> 0
         then Some \<lparr>category = scenario.category sc,
                    message = array_at (messages sc)
                                \<lfloor>fl (r2 * of_nat (length (messages sc)))\<rfloor>\<rparr>
         else pickScenario random' r2 rest)\<close>

text \<open>
  The values \<^verbatim>\<open>random\<close> takes after each \<^verbatim>\<open>random -= scenario.weight\<close>, were the loop
  to go through the whole list: the loop returns at the first of them that is not positive.
\<close>

fun draws :: \<open>rat \<Rightarrow> scenario list \<Rightarrow> rat list\<close> where
  \<open>draws random [] = []\<close>
| \<open>draws random (sc # rest) = fl (random - weight sc) # draws (fl (random - weight sc)) rest\<close>

text \<open>
  \<^verbatim>\<open>TEST_SCENARIOS.reduce((sum, scenario) => sum + scenario.weight, 0)\<close>, each sum rounded.
\<close>

definition totalWeight :: rat where
  \<open>totalWeight = foldl (\<lambda>sum sc. fl (sum + weight sc)) 0 TEST_SCENARIOS\<close>

text \<open>
  \<^verbatim>\<open>getRandomScenario\<close>, given the two values \<open>r1\<close> and \<open>r2\<close> that \<^verbatim>\<open>Math.random()\<close>
  returns; the first draw is the rounded product \<^verbatim>\<open>Math.random() * totalWeight\<close>.
\<close>

definition getRandomScenario :: \<open>rat \<Rightarrow> rat \<Rightarrow> chosen\<close> where
  \<open>getRandomScenario r1 r2 =
     (case pickScenario (fl (r1 * totalWeight)) r2 TEST_SCENARIOS of
        Some c \<Rightarrow> c
      | None \<Rightarrow> \<lparr>category = ''greeting'', message = Some ''Hello''\<rparr>)\<close>

section \<open>Rounding to binary64\<close>

text \<open>
  The rounding is monotone, keeps the whole numbers below \<open>2 ^ 53\<close>, and on a number
  between \<open>2 ^ (52 - k)\<close> and \<open>2 ^ (53 - k)\<close> it rounds to a multiple of one over \<open>2 ^ k\<close>.
\<close>

lemma floor_rat_numeral:
  \<open>\<lfloor>numeral a / numeral b :: rat\<rfloor> = numeral a div numeral b\<close>
  using floor_divide_of_int_eq [of \<open>numeral a\<close> \<open>numeral b\<close>, where ?'a = rat] by simp

lemma round_even_of_int: \<open>round_even (of_int z) = z\<close>
  by (simp add: round_even_def)

lemma round_even_bounds: \<open>\<lfloor>q\<rfloor> \<le> round_even q \<and> round_even q \<le> \<lfloor>q\<rfloor> + 1\<close>
  by (simp add: round_even_def Let_def)

lemma round_even_mono:
  assumes \<open>a \<le> b\<close>
  shows \<open>round_even a \<le> round_even b\<close>
proof (cases \<open>\<lfloor>a\<rfloor> = \<lfloor>b\<rfloor>\<close>)
  case True
  with assms have \<open>a - of_int \<lfloor>a\<rfloor> \<le> b - of_int \<lfloor>b\<rfloor>\<close> by simp
  with True show ?thesis by (auto simp: round_even_def Let_def)
next
  case False
  with assms have \<open>\<lfloor>a\<rfloor> < \<lfloor>b\<rfloor>\<close> by (simp add: floor_mono order.strict_iff_order)
  with round_even_bounds [of a] round_even_bounds [of b] show ?thesis by linarith
qed

lemma round_even_le: \<open>a \<le> of_int z \<Longrightarrow> round_even a \<le> z\<close>
  using round_even_mono [of a \<open>of_int z\<close>] by (simp add: round_even_of_int)

lemma round_even_ge: \<open>of_int z \<le> a \<Longrightarrow> z \<le> round_even a\<close>
  using round_even_mono [of \<open>of_int z\<close> a] by (simp add: round_even_of_int)

lemma bitlen_mono: \<open>x \<le> y \<Longrightarrow> bitlen x \<le> bitlen y\<close>
  unfolding bitlen_def by (simp add: floorlog_mono nat_mono)

lemma scale1074_pos: \<open>0 < scale1074\<close>
  by (simp add: scale1074_def)

lemma float_shift_mono:
  assumes \<open>a \<le> b\<close>
  shows \<open>float_shift a \<le> float_shift b\<close>
proof -
  from assms have \<open>a * scale1074 \<le> b * scale1074\<close>
    using scale1074_pos by simp
  then have \<open>\<lfloor>a * scale1074\<rfloor> \<le> \<lfloor>b * scale1074\<rfloor>\<close> by (rule floor_mono)
  then have \<open>bitlen \<lfloor>a * scale1074\<rfloor> \<le> bitlen \<lfloor>b * scale1074\<rfloor>\<close> by (rule bitlen_mono)
  then show ?thesis unfolding float_shift_def by simp
qed

lemma float_shift_upper: \<open>a * scale1074 < 2 ^ (float_shift a + 53)\<close>
proof -
  let ?n = \<open>\<lfloor>a * scale1074\<rfloor>\<close>
  have \<open>bitlen ?n \<le> int (float_shift a + 53)\<close>
    unfolding float_shift_def by simp
  then have \<open>?n < 2 ^ (float_shift a + 53)\<close>
    using bitlen_le_iff_power [of ?n \<open>int (float_shift a + 53)\<close>] unfolding nat_int by blast
  then have \<open>a * scale1074 < of_int (2 ^ (float_shift a + 53))\<close>
    by (simp only: floor_less_iff)
  then show ?thesis by simp
qed

lemma float_shift_lower:
  assumes \<open>0 < float_shift a\<close>
  shows \<open>2 ^ (float_shift a + 52) \<le> a * scale1074\<close>
proof -
  let ?n = \<open>\<lfloor>a * scale1074\<rfloor>\<close>
  from assms have \<open>int (float_shift a + 53) \<le> bitlen ?n\<close>
    unfolding float_shift_def by simp
  then have \<open>2 ^ (nat (int (float_shift a + 53)) - 1) \<le> ?n\<close>
    using bitlen_ge_iff_power [of \<open>int (float_shift a + 53)\<close> ?n] by simp
  then have \<open>2 ^ (float_shift a + 52) \<le> ?n\<close>
    unfolding nat_int by (simp add: add.commute)
  then have \<open>of_int (2 ^ (float_shift a + 52)) \<le> a * scale1074\<close>
    by (simp only: le_floor_iff)
  then show ?thesis by simp
qed

lemma fl_abs_le_top: \<open>fl_abs a \<le> 2 ^ (float_shift a + 53) / scale1074\<close>
proof -
  let ?s = \<open>float_shift a\<close>
  have \<open>a * scale1074 / 2 ^ ?s \<le> 2 ^ (?s + 53) / 2 ^ ?s\<close>
    using float_shift_upper [of a] by (simp add: divide_right_mono)
  then have \<open>a * scale1074 / 2 ^ ?s \<le> of_int (2 ^ 53)\<close>
    by (simp add: power_add)
  then have \<open>round_even (a * scale1074 / 2 ^ ?s) \<le> 2 ^ 53\<close> by (rule round_even_le)
  then have \<open>(of_int (round_even (a * scale1074 / 2 ^ ?s)) :: rat) \<le> of_int (2 ^ 53)\<close>
    by (simp only: of_int_le_iff)
  then have \<open>(of_int (round_even (a * scale1074 / 2 ^ ?s)) :: rat) * 2 ^ ?s \<le> 2 ^ 53 * 2 ^ ?s\<close>
    by simp
  then show ?thesis
    unfolding fl_abs_def using scale1074_pos
    by (simp add: power_add divide_right_mono mult.commute)
qed

lemma fl_abs_ge_bottom:
  assumes \<open>0 < float_shift a\<close>
  shows \<open>2 ^ (float_shift a + 52) / scale1074 \<le> fl_abs a\<close>
proof -
  let ?s = \<open>float_shift a\<close>
  have \<open>2 ^ (?s + 52) / 2 ^ ?s \<le> a * scale1074 / 2 ^ ?s\<close>
    using float_shift_lower [OF assms] by (simp add: divide_right_mono)
  then have \<open>of_int (2 ^ 52) \<le> a * scale1074 / 2 ^ ?s\<close>
    by (simp add: power_add)
  then have \<open>2 ^ 52 \<le> round_even (a * scale1074 / 2 ^ ?s)\<close> by (rule round_even_ge)
  then have \<open>(of_int (2 ^ 52) :: rat) \<le> of_int (round_even (a * scale1074 / 2 ^ ?s))\<close>
    by (simp only: of_int_le_iff)
  then have \<open>(2 ^ 52 :: rat) * 2 ^ ?s \<le> of_int (round_even (a * scale1074 / 2 ^ ?s)) * 2 ^ ?s\<close>
    by simp
  then show ?thesis
    unfolding fl_abs_def using scale1074_pos
    by (simp add: power_add divide_right_mono mult.commute)
qed

lemma fl_abs_mono:
  assumes \<open>a \<le> b\<close>
  shows \<open>fl_abs a \<le> fl_abs b\<close>
proof (cases \<open>float_shift a = float_shift b\<close>)
  case True
  from assms have \<open>a * scale1074 / 2 ^ float_shift b \<le> b * scale1074 / 2 ^ float_shift b\<close>
    using scale1074_pos by (simp add: divide_right_mono)
  then have \<open>round_even (a * scale1074 / 2 ^ float_shift b)
      \<le> round_even (b * scale1074 / 2 ^ float_shift b)\<close>
    by (rule round_even_mono)
  then have \<open>(of_int (round_even (a * scale1074 / 2 ^ float_shift b)) :: rat)
      \<le> of_int (round_even (b * scale1074 / 2 ^ float_shift b))\<close>
    by (simp only: of_int_le_iff)
  then show ?thesis
    unfolding fl_abs_def True using scale1074_pos by (simp add: divide_right_mono)
next
  case False
  with float_shift_mono [OF assms] have lt: \<open>float_shift a < float_shift b\<close> by simp
  then have pos: \<open>0 < float_shift b\<close> by simp
  from lt have \<open>float_shift a + 53 \<le> float_shift b + 52\<close> by simp
  then have \<open>(2::rat) ^ (float_shift a + 53) \<le> 2 ^ (float_shift b + 52)\<close>
    by simp
  then have \<open>(2::rat) ^ (float_shift a + 53) / scale1074 \<le> 2 ^ (float_shift b + 52) / scale1074\<close>
    using scale1074_pos by (simp add: divide_right_mono)
  with fl_abs_le_top [of a] fl_abs_ge_bottom [OF pos] show ?thesis by linarith
qed

lemma fl_abs_0: \<open>fl_abs 0 = 0\<close>
  by (simp add: fl_abs_def float_shift_def round_even_def)

lemma fl_abs_nonneg: \<open>0 \<le> a \<Longrightarrow> 0 \<le> fl_abs a\<close>
  using fl_abs_mono [of 0 a] by (simp add: fl_abs_0)

lemma fl_mono:
  assumes \<open>x \<le> y\<close>
  shows \<open>fl x \<le> fl y\<close>
proof -
  consider \<open>y < 0\<close> | \<open>x < 0\<close> \<open>0 \<le> y\<close> | \<open>0 \<le> x\<close> by linarith
  then show ?thesis
  proof cases
    case 1
    with assms have \<open>x < 0\<close> \<open>- y \<le> - x\<close> by simp_all
    with 1 fl_abs_mono [of \<open>- y\<close> \<open>- x\<close>] show ?thesis by (simp add: fl_def)
  next
    case 2
    then have \<open>0 \<le> fl_abs (- x)\<close> \<open>0 \<le> fl_abs y\<close> by (simp_all add: fl_abs_nonneg)
    with 2 show ?thesis by (simp add: fl_def)
  next
    case 3
    with assms have \<open>0 \<le> y\<close> by simp
    with 3 fl_abs_mono [OF assms] show ?thesis by (simp add: fl_def)
  qed
qed

lemma fl_0: \<open>fl 0 = 0\<close>
  by (simp add: fl_def fl_abs_0)

lemma float_shift_scaled:
  assumes k: \<open>k \<le> 1074\<close> and lo: \<open>2 ^ 52 \<le> a * 2 ^ k\<close> and hi: \<open>a * 2 ^ k < 2 ^ 53\<close>
  shows \<open>float_shift a = 1074 - k\<close>
proof -
  let ?m = \<open>1074 - k\<close>
  let ?n = \<open>\<lfloor>a * scale1074\<rfloor>\<close>
  from k have \<open>(2::rat) ^ 1074 = 2 ^ k * 2 ^ ?m\<close>
    by (simp only: power_add [symmetric]) simp
  then have q: \<open>a * scale1074 = (a * 2 ^ k) * 2 ^ ?m\<close>
    unfolding scale1074_def by simp
  have \<open>(2::rat) ^ 52 * 2 ^ ?m \<le> (a * 2 ^ k) * 2 ^ ?m\<close>
    using lo by (intro mult_right_mono) simp_all
  then have \<open>of_int (2 ^ (52 + ?m)) \<le> a * scale1074\<close>
    unfolding q by (simp add: power_add)
  then have n_lo: \<open>2 ^ (52 + ?m) \<le> ?n\<close> by (simp only: le_floor_iff)
  have \<open>(a * 2 ^ k) * 2 ^ ?m < (2::rat) ^ 53 * 2 ^ ?m\<close>
    using hi by (intro mult_strict_right_mono) simp_all
  then have \<open>a * scale1074 < of_int (2 ^ (53 + ?m))\<close>
    unfolding q by (simp add: power_add)
  then have n_hi: \<open>?n < 2 ^ (53 + ?m)\<close> by (simp only: floor_less_iff)
  have \<open>bitlen ?n \<le> int (53 + ?m)\<close>
    using bitlen_le_iff_power [of ?n \<open>int (53 + ?m)\<close>] n_hi unfolding nat_int by simp
  moreover have \<open>int (53 + ?m) \<le> bitlen ?n\<close>
    using bitlen_ge_iff_power [of \<open>int (53 + ?m)\<close> ?n] n_lo unfolding nat_int by simp
  ultimately have \<open>bitlen ?n = int (53 + ?m)\<close> by simp
  then show ?thesis unfolding float_shift_def by simp
qed

lemma fl_abs_scaled:
  assumes k: \<open>k \<le> 1074\<close> and lo: \<open>2 ^ 52 \<le> a * 2 ^ k\<close> and hi: \<open>a * 2 ^ k < 2 ^ 53\<close>
  shows \<open>fl_abs a = of_int (round_even (a * 2 ^ k)) / 2 ^ k\<close>
proof -
  let ?m = \<open>1074 - k\<close>
  from k have p: \<open>(2::rat) ^ 1074 = 2 ^ k * 2 ^ ?m\<close>
    by (simp only: power_add [symmetric]) simp
  have s: \<open>float_shift a = ?m\<close> using assms by (rule float_shift_scaled)
  have \<open>a * scale1074 / 2 ^ ?m = a * 2 ^ k\<close>
    unfolding scale1074_def p by simp
  moreover have \<open>x * 2 ^ ?m / scale1074 = x / 2 ^ k\<close> for x :: rat
    unfolding scale1074_def p by simp
  ultimately show ?thesis unfolding fl_abs_def s by simp
qed

lemma fl_scaled:
  assumes \<open>k \<le> 1074\<close> \<open>2 ^ 52 \<le> x * 2 ^ k\<close> \<open>x * 2 ^ k < 2 ^ 53\<close>
  shows \<open>fl x = of_int (round_even (x * 2 ^ k)) / 2 ^ k\<close>
proof -
  from assms(2) have \<open>0 < x * 2 ^ k\<close> by (rule less_le_trans [rotated]) simp
  then have \<open>0 < x\<close> by (simp add: zero_less_mult_iff)
  then have \<open>fl x = fl_abs x\<close> by (simp add: fl_def)
  with fl_abs_scaled [OF assms] show ?thesis by simp
qed

lemma fl_of_int_pos:
  assumes \<open>0 < z\<close> \<open>z < 2 ^ 53\<close>
  shows \<open>fl (of_int z) = of_int z\<close>
proof -
  let ?b = \<open>nat (bitlen z)\<close>
  from assms(1) have b: \<open>2 ^ (?b - 1) \<le> z\<close> \<open>z < 2 ^ ?b\<close> \<open>0 < bitlen z\<close>
    using bitlen_bounds [OF assms(1)] bitlen_eq_zero_iff [of z] bitlen_nonneg [of z]
    by (simp_all add: nat_diff_distrib)
  have \<open>bitlen z \<le> 53\<close>
    using bitlen_le_iff_power [of z 53] assms(2) by simp
  with b(3) have b53: \<open>1 \<le> ?b\<close> \<open>?b \<le> 53\<close> by simp_all
  let ?k = \<open>53 - ?b\<close>
  have k: \<open>?k \<le> 1074\<close> by simp
  from b53 have e1: \<open>(?b - 1) + ?k = 52\<close> and e2: \<open>?b + ?k = 53\<close> by simp_all
  have \<open>(2::int) ^ (?b - 1) * 2 ^ ?k \<le> z * 2 ^ ?k\<close>
    using b(1) by (intro mult_right_mono) simp_all
  then have \<open>(2::int) ^ 52 \<le> z * 2 ^ ?k\<close>
    by (simp only: power_add [symmetric] e1)
  then have \<open>(of_int (2 ^ 52) :: rat) \<le> of_int (z * 2 ^ ?k)\<close>
    by (simp only: of_int_le_iff)
  then have lo: \<open>(2::rat) ^ 52 \<le> of_int z * 2 ^ ?k\<close> by simp
  have \<open>z * 2 ^ ?k < (2::int) ^ ?b * 2 ^ ?k\<close>
    using b(2) by (intro mult_strict_right_mono) simp_all
  then have \<open>z * 2 ^ ?k < (2::int) ^ 53\<close>
    by (simp only: power_add [symmetric] e2)
  then have \<open>(of_int (z * 2 ^ ?k) :: rat) < of_int (2 ^ 53)\<close>
    by (simp only: of_int_less_iff)
  then have hi: \<open>of_int z * 2 ^ ?k < (2::rat) ^ 53\<close> by simp
  have \<open>round_even (of_int z * 2 ^ ?k) = z * 2 ^ ?k\<close>
    using round_even_of_int [of \<open>z * 2 ^ ?k\<close>] by simp
  with fl_scaled [OF k lo hi] show ?thesis by simp
qed

lemma fl_numeral: \<open>numeral n < (2::int) ^ 53 \<Longrightarrow> fl (numeral n) = numeral n\<close>
  using fl_of_int_pos [of \<open>numeral n\<close>] by simp

lemma fl_1: \<open>fl 1 = 1\<close>
  using fl_of_int_pos [of 1] by simp

lemma double_below_one:
  assumes \<open>is_double r\<close> \<open>r < 1\<close>
  shows \<open>r \<le> 1 - 1 / 2 ^ 53\<close>
proof (rule ccontr)
  assume \<open>\<not> r \<le> 1 - 1 / 2 ^ 53\<close>
  then have gt: \<open>1 - 1 / 2 ^ 53 < r\<close> by simp
  then have \<open>(1 - 1 / 2 ^ 53) * 2 ^ 53 < r * 2 ^ 53\<close>
    by (intro mult_strict_right_mono) simp_all
  then have above: \<open>2 ^ 53 - 1 < r * 2 ^ 53\<close> by (simp add: algebra_simps)
  then have lo: \<open>2 ^ 52 \<le> r * 2 ^ 53\<close> by simp
  from assms(2) have hi: \<open>r * 2 ^ 53 < 2 ^ 53\<close> by simp
  have \<open>fl r = of_int (round_even (r * 2 ^ 53)) / 2 ^ 53\<close>
    by (rule fl_scaled [OF _ lo hi]) simp
  with assms(1) have \<open>r * 2 ^ 53 = of_int (round_even (r * 2 ^ 53))\<close>
    by (simp add: is_double_def)
  then obtain N :: int where N: \<open>r * 2 ^ 53 = of_int N\<close> ..
  from above have \<open>(of_int (2 ^ 53 - 1) :: rat) < of_int N\<close> unfolding N by simp
  then have \<open>2 ^ 53 - 1 < N\<close> by (simp only: of_int_less_iff)
  moreover from hi have \<open>(of_int N :: rat) < of_int (2 ^ 53)\<close> unfolding N by simp
  then have \<open>N < 2 ^ 53\<close> by (simp only: of_int_less_iff)
  ultimately show False by simp
qed

lemma fl_below_100: \<open>fl ((1 - 1 / 2 ^ 53) * 100) = 100 - 1 / 2 ^ 46\<close>
  by (simp add: fl_scaled [where k = 46] round_even_def floor_rat_numeral)

lemma fl_below_4: \<open>fl ((1 - 1 / 2 ^ 53) * 4) = 4 - 1 / 2 ^ 51\<close>
  by (simp add: fl_scaled [where k = 51] round_even_def floor_rat_numeral)

section \<open>Properties of the issue analyzer\<close>

subsection \<open>The two estimates\<close>

text \<open>
  For a category that is not the name of an inherited property the two methods are the
  lookups the specification describes, and two issues of one category get the same answers.
\<close>

lemma estimateFixTime_own:
  fixes i :: \<open>'a issue_scheme\<close>
  assumes \<open>map_of Object_prototype (issue.category i) = None\<close>
  shows \<open>estimateFixTime i =
           Value (case map_of timeEstimates (issue.category i) of
                    Some v \<Rightarrow> v | None \<Rightarrow> ''4-8 hours'')\<close>
proof (cases \<open>map_of timeEstimates (issue.category i)\<close>)
  case None
  with assms show ?thesis
    by (simp add: estimateFixTime_def get_property_def property_or_str_def)
next
  case (Some v)
  then have \<open>(issue.category i, v) \<in> set timeEstimates\<close> by (rule map_of_SomeD)
  then have \<open>v \<noteq> []\<close> by (auto simp: timeEstimates_def)
  with Some show ?thesis
    by (simp add: estimateFixTime_def get_property_def property_or_str_def)
qed

lemma estimateAffectedUsers_own:
  fixes i :: \<open>'a issue_scheme\<close>
  assumes \<open>map_of Object_prototype (issue.category i) = None\<close>
  shows \<open>estimateAffectedUsers i =
           Value (case map_of affectedPercentages (issue.category i) of
                    Some v \<Rightarrow> v | None \<Rightarrow> ''10-30%'')\<close>
proof (cases \<open>map_of affectedPercentages (issue.category i)\<close>)
  case None
  with assms show ?thesis
    by (simp add: estimateAffectedUsers_def get_property_def property_or_str_def)
next
  case (Some v)
  then have \<open>(issue.category i, v) \<in> set affectedPercentages\<close> by (rule map_of_SomeD)
  then have \<open>v \<noteq> []\<close> by (auto simp: affectedPercentages_def)
  with Some show ?thesis
    by (simp add: estimateAffectedUsers_def get_property_def property_or_str_def)
qed

lemma estimates_depend_on_category:
  fixes i j :: \<open>'a issue_scheme\<close>
  assumes \<open>issue.category i = issue.category j\<close>
  shows \<open>estimateFixTime i = estimateFixTime j\<close>
    and \<open>estimateAffectedUsers i = estimateAffectedUsers j\<close>
  using assms by (simp_all add: estimateFixTime_def estimateAffectedUsers_def)

text \<open>
  C5 claims that \<^verbatim>\<open>estimateFixTime\<close> and \<^verbatim>\<open>estimateAffectedUsers\<close> return a string that
  depends on the category through a fixed table, and the defaults \<^verbatim>\<open>4-8 hours\<close> and
  \<^verbatim>\<open>10-30%\<close> for a category that is not in the table. For the category
  \<^verbatim>\<open>constructor\<close>, which neither table has, each lookup finds the property of that name
  that every object inherits, and each method returns the function \<^verbatim>\<open>Object\<close>: not a
  string, and not the default.
\<close>

theorem estimates_of_inherited_category:
  \<open>estimateFixTime
      \<lparr>issue.category = ''constructor'', issue.severity = Some ''minor'',
       issue.description = ''a'', evidence = ''b'', impact = ''c'', recommendation = ''d''\<rparr>
     = Builtin (BuiltinFunction ''Object'')
   \<and> estimateAffectedUsers
      \<lparr>issue.category = ''constructor'', issue.severity = Some ''minor'',
       issue.description = ''a'', evidence = ''b'', impact = ''c'', recommendation = ''d''\<rparr>
     = Builtin (BuiltinFunction ''Object'')
   \<and> map_of timeEstimates ''constructor'' = None
   \<and> map_of affectedPercentages ''constructor'' = None\<close>
  by (simp add: estimateFixTime_def estimateAffectedUsers_def get_property_def
        property_or_str_def timeEstimates_def affectedPercentages_def Object_prototype_def)

subsection \<open>The business priority\<close>

lemma fl_quarter: \<open>fl (1 / 4) = 1 / 4\<close>
  by (simp add: fl_scaled [where k = 54] round_even_def)

lemma fl_half: \<open>fl (1 / 2) = 1 / 2\<close>
  by (simp add: fl_scaled [where k = 53] round_even_def)

lemma fl_tenths:
  assumes \<open>3 \<le> k\<close> \<open>k \<le> 10\<close>
  shows \<open>1 / 4 \<le> fl (k / 10) \<and> fl (k / 10) \<le> 1\<close>
proof -
  from assms have \<open>1 / 4 \<le> k / 10\<close> \<open>k / 10 \<le> 1\<close> by simp_all
  then have \<open>fl (1 / 4) \<le> fl (k / 10)\<close> \<open>fl (k / 10) \<le> fl 1\<close>
    by (simp_all only: fl_mono)
  then show ?thesis by (simp add: fl_quarter fl_1)
qed

lemma categoryMultiplier_range: \<open>1 / 4 \<le> categoryMultiplier c \<and> categoryMultiplier c \<le> 1\<close>
  using fl_tenths [of 9] fl_tenths [of 8] fl_tenths [of 7] fl_tenths [of 6] fl_tenths [of 5]
    fl_tenths [of 4] fl_tenths [of 3]
  by (simp add: categoryMultiplier_def categoryMultipliers_def)

lemma categoryMultiplier_nonzero: \<open>categoryMultiplier c \<noteq> 0\<close>
  using categoryMultiplier_range [of c] by auto

lemma multiplier_own:
  assumes \<open>map_of Object_prototype c = None\<close>
  shows \<open>property_or_num (get_property categoryMultipliers c) (1 / 2) = Value (categoryMultiplier c)\<close>
proof (cases \<open>map_of categoryMultipliers c\<close>)
  case None
  with assms show ?thesis
    by (simp add: get_property_def property_or_num_def categoryMultiplier_def)
next
  case (Some v)
  then have \<open>categoryMultiplier c = v\<close> by (simp add: categoryMultiplier_def)
  with categoryMultiplier_nonzero [of c] have \<open>v \<noteq> 0\<close> by simp
  with Some show ?thesis
    by (simp add: get_property_def property_or_num_def categoryMultiplier_def)
qed

lemma baseScore_own:
  assumes \<open>\<forall>s. sev = Some s \<longrightarrow> map_of Object_prototype s = None\<close>
  shows \<open>property_or_num (case sev of None \<Rightarrow> Missing | Some s \<Rightarrow> get_property severityScores s) 4
           = Value (severityScore sev)\<close>
proof (cases sev)
  case None
  then show ?thesis by (simp add: property_or_num_def severityScore_def)
next
  case (Some s)
  with assms have \<open>map_of Object_prototype s = None\<close> by simp
  with Some show ?thesis
    by (simp add: get_property_def property_or_num_def severityScore_def severityScores_def)
qed

lemma calculateBusinessPriority_own:
  fixes i :: \<open>'a issue_scheme\<close>
  assumes \<open>\<forall>s. issue.severity i = Some s \<longrightarrow> map_of Object_prototype s = None\<close>
    and \<open>map_of Object_prototype (issue.category i) = None\<close>
  shows \<open>calculateBusinessPriority i = specified_priority (issue.severity i) (issue.category i)\<close>
  by (simp add: calculateBusinessPriority_def specified_priority_def baseScore_own [OF assms(1)]
        multiplier_own [OF assms(2)] multiply_def)

lemma severityScore_range:
  assumes \<open>sev \<in> {Some ''critical'', Some ''high'', Some ''moderate'', Some ''minor''}\<close>
  shows \<open>2 \<le> severityScore sev \<and> severityScore sev \<le> 10\<close>
  using assms by (auto simp: severityScore_def)

lemma specified_priority_range:
  assumes \<open>sev \<in> {Some ''critical'', Some ''high'', Some ''moderate'', Some ''minor''}\<close>
  shows \<open>\<exists>z. specified_priority sev c = Number (of_int z) \<and> 1 \<le> z \<and> z \<le> 10\<close>
proof -
  let ?s = \<open>severityScore sev\<close> and ?m = \<open>categoryMultiplier c\<close>
  note s = severityScore_range [OF assms] and m = categoryMultiplier_range [of c]
  have \<open>2 * (1 / 4) \<le> ?s * ?m\<close>
    using s m by (intro mult_mono) simp_all
  then have \<open>fl (1 / 2) \<le> fl (?s * ?m)\<close> by (simp only: fl_mono)
  then have lo: \<open>1 \<le> fl (?s * ?m) + 1 / 2\<close> by (simp add: fl_half)
  have \<open>?s * ?m \<le> 10 * 1\<close>
    using s m by (intro mult_mono) simp_all
  then have \<open>fl (?s * ?m) \<le> fl 10\<close> by (simp only: fl_mono)
  then have hi: \<open>fl (?s * ?m) + 1 / 2 < 11\<close> by (simp add: fl_numeral)
  from lo have \<open>1 \<le> \<lfloor>fl (?s * ?m) + 1 / 2\<rfloor>\<close> by (simp add: le_floor_iff)
  moreover from hi have \<open>\<lfloor>fl (?s * ?m) + 1 / 2\<rfloor> < 11\<close> by (simp add: floor_less_iff)
  ultimately show ?thesis
    by (intro exI [of _ \<open>\<lfloor>fl (?s * ?m) + 1 / 2\<rfloor>\<close>])
       (simp add: specified_priority_def Math_round_def)
qed

lemma named_severity_not_inherited:
  assumes \<open>sev \<in> {Some ''critical'', Some ''high'', Some ''moderate'', Some ''minor''}\<close>
    and \<open>sev = Some s\<close>
  shows \<open>map_of Object_prototype s = None\<close>
proof -
  from assms have \<open>s = ''critical'' \<or> s = ''high'' \<or> s = ''moderate'' \<or> s = ''minor''\<close>
    by blast
  then show ?thesis
    by (elim disjE) (simp_all add: Object_prototype_def)
qed

lemma businessPriority_range_own:
  fixes i :: \<open>'a issue_scheme\<close>
  assumes \<open>issue.severity i \<in> {Some ''critical'', Some ''high'', Some ''moderate'', Some ''minor''}\<close>
    and \<open>map_of Object_prototype (issue.category i) = None\<close>
  shows \<open>\<exists>z. calculateBusinessPriority i = Number (of_int z) \<and> 1 \<le> z \<and> z \<le> 10\<close>
proof -
  have \<open>\<forall>s. issue.severity i = Some s \<longrightarrow> map_of Object_prototype s = None\<close>
    using named_severity_not_inherited [OF assms(1)] by blast
  then have \<open>calculateBusinessPriority i = specified_priority (issue.severity i) (issue.category i)\<close>
    using assms(2) by (rule calculateBusinessPriority_own)
  with specified_priority_range [OF assms(1), of \<open>issue.category i\<close>] show ?thesis
    by (simp only:)
qed

text \<open>
  C8 claims that for each of the severities \<^verbatim>\<open>critical\<close>, \<^verbatim>\<open>high\<close>, \<^verbatim>\<open>moderate\<close>,
  \<^verbatim>\<open>minor\<close> and for any category the priority of \<^verbatim>\<open>calculateBusinessPriority\<close> lies
  between 1 and 10. For a critical issue of the category \<^verbatim>\<open>constructor\<close> the multiplier
  that the lookup finds is the inherited function \<^verbatim>\<open>Object\<close>, the product is
  \<^verbatim>\<open>NaN\<close>, and so is the priority.
\<close>

theorem businessPriority_of_inherited_category:
  \<open>calculateBusinessPriority
      \<lparr>issue.category = ''constructor'', issue.severity = Some ''critical'',
       issue.description = ''a'', evidence = ''b'', impact = ''c'', recommendation = ''d''\<rparr>
     = NaN\<close>
  by (simp add: calculateBusinessPriority_def get_property_def property_or_num_def
        severityScores_def categoryMultipliers_def Object_prototype_def multiply_def
        Math_round_def)

text \<open>
  C2 claims that the priority \<^verbatim>\<open>addIssue\<close> stores is the rounded product of the score of
  the severity and the multiplier of the category, the severity being the one of the stored
  record (category, then severity, then priority), with the score 4 for a severity that is
  none of the four. An issue of the category \<^verbatim>\<open>security\<close> that comes without a severity
  is stored with the severity \<^verbatim>\<open>critical\<close> of the category table and with the priority
  4, the score of a missing severity, where the formula gives 10 for the stored severity:
  \<^verbatim>\<open>addIssue\<close> hands \<^verbatim>\<open>calculateBusinessPriority\<close> the issue as it came, not the record
  with the severity filled in. And an issue of that category with the severity
  \<^verbatim>\<open>constructor\<close> is stored with the priority \<^verbatim>\<open>NaN\<close>, where the formula gives 4.
\<close>

theorem addIssue_priority_misses_stored_severity:
  \<open>map (\<lambda>e. (issue.severity e, businessPriority e))
     (issues (fst (snd (addIssue
        \<lparr>isoNow = ''2024-05-01T10:00:00.000Z'', nowBase36 = ''lvo3k2rk'',
         randomBase36 = ''0.4fzyo82mvyr''\<rparr>
        \<lparr>issues = [], categories = default_categories\<rparr>
        \<lparr>issue.category = ''security'', issue.severity = None,
         issue.description = ''token leaked'', evidence = ''log'', impact = ''data at risk'',
         recommendation = ''rotate''\<rparr>))))
     = [(Some ''critical'', Number 4)]
   \<and> specified_priority (Some ''critical'') ''security'' = Number 10
   \<and> map (\<lambda>e. (issue.severity e, businessPriority e))
     (issues (fst (snd (addIssue
        \<lparr>isoNow = ''2024-05-01T10:00:00.000Z'', nowBase36 = ''lvo3k2rk'',
         randomBase36 = ''0.4fzyo82mvyr''\<rparr>
        \<lparr>issues = [], categories = default_categories\<rparr>
        \<lparr>issue.category = ''security'', issue.severity = Some ''constructor'',
         issue.description = ''token leaked'', evidence = ''log'', impact = ''data at risk'',
         recommendation = ''rotate''\<rparr>))))
     = [(Some ''constructor'', NaN)]
   \<and> specified_priority (Some ''constructor'') ''security'' = Number 4\<close>
proof -
  have \<open>calculateBusinessPriority
      \<lparr>issue.category = ''security'', issue.severity = None,
       issue.description = ''token leaked'', evidence = ''log'', impact = ''data at risk'',
       recommendation = ''rotate''\<rparr> = Number 4\<close>
    by (simp add: calculateBusinessPriority_def get_property_def property_or_num_def
          categoryMultipliers_def multiply_def Math_round_def fl_numeral floor_eq_iff)
  moreover have \<open>calculateBusinessPriority
      \<lparr>issue.category = ''security'', issue.severity = Some ''constructor'',
       issue.description = ''token leaked'', evidence = ''log'', impact = ''data at risk'',
       recommendation = ''rotate''\<rparr> = NaN\<close>
    by (simp add: calculateBusinessPriority_def get_property_def property_or_num_def
          severityScores_def categoryMultipliers_def Object_prototype_def multiply_def
          Math_round_def)
  moreover have \<open>specified_priority (Some ''critical'') ''security'' = Number 10\<close>
    by (simp add: specified_priority_def severityScore_def categoryMultiplier_def
          categoryMultipliers_def Math_round_def fl_numeral floor_eq_iff)
  moreover have \<open>specified_priority (Some ''constructor'') ''security'' = Number 4\<close>
    by (simp add: specified_priority_def severityScore_def categoryMultiplier_def
          categoryMultipliers_def Math_round_def fl_numeral floor_eq_iff)
  ultimately show ?thesis
    by (simp add: addIssue_def Let_def or_str_def or_opt_def default_categories_def)
qed

subsection \<open>The record that addIssue stores\<close>







subsection \<open>The summary\<close>

lemma generateSummary_overflows:
  \<open>generateSummary frames a = Inl RangeError \<and> calculateOverallRiskLevel frames a = Inl RangeError\<close>
  by (induction frames) (simp_all add: Let_def)

text \<open>The same on a fresh analyzer, with room for ten thousand call frames.\<close>

lemma generateSummary_fresh_analyzer:
  \<open>generateSummary 10000 IssueAnalyzer_new = Inl RangeError\<close>
  using generateSummary_overflows [of 10000 IssueAnalyzer_new] by (rule conjunct1)

text \<open>
  C3 claims that \<^verbatim>\<open>generateSummary\<close> returns the summary for every list of issues. It
  does not: whatever room the call stack has and whatever the issues are, the mutual
  recursion with \<^verbatim>\<open>calculateOverallRiskLevel\<close> uses the stack up and the call ends with
  \<^verbatim>\<open>RangeError\<close>.
\<close>

theorem generateSummary_never_returns:
  \<open>generateSummary frames a = Inl RangeError\<close>
  using generateSummary_overflows [of frames a] by simp

section \<open>Properties of the selector resolution\<close>

lemma fallback_present: \<open>\<exists>fb. map_of HUBSPOT_SELECTORS ''fallback'' = Some fb\<close>
  by (simp add: HUBSPOT_SELECTORS_def)

lemma read2_own:
  assumes \<open>map_of t k = Some es\<close>
  shows \<open>read2 rt t k e = Inr (to_value (get_property es e))\<close>
  using assms by (simp add: read2_def get_property_def)

lemma tryFrameworks_first_working:
  \<open>tryFrameworks page e tbl =
     first_working page (map (\<lambda>(framework, selectors). to_value (get_property selectors e)) tbl)\<close>
  by (induction tbl) (auto split: option.splits)

lemma alternatives_tiers:
  \<open>map (\<lambda>(framework, selectors). to_value (get_property selectors e)) ALTERNATIVE_SELECTORS =
     map projr
       [read2 rt ALTERNATIVE_SELECTORS ''intercom'' e,
        read2 rt ALTERNATIVE_SELECTORS ''drift'' e,
        read2 rt ALTERNATIVE_SELECTORS ''zendesk'' e,
        read2 rt ALTERNATIVE_SELECTORS ''generic'' e]\<close>
  by (simp add: ALTERNATIVE_SELECTORS_def read2_def get_property_def)

lemma lower_tiers_read:
  \<open>tl (selector_tiers rt c e) = map Inr (map projr (tl (selector_tiers rt c e)))\<close>
proof -
  obtain fb where fb: \<open>map_of HUBSPOT_SELECTORS ''fallback'' = Some fb\<close>
    using fallback_present by blast
  have \<open>\<exists>es. map_of ALTERNATIVE_SELECTORS k = Some es\<close>
    if \<open>k \<in> {''intercom'', ''drift'', ''zendesk'', ''generic''}\<close> for k
    using that by (auto simp: ALTERNATIVE_SELECTORS_def)
  then obtain e1 e2 e3 e4 where alt:
    \<open>map_of ALTERNATIVE_SELECTORS ''intercom'' = Some e1\<close>
    \<open>map_of ALTERNATIVE_SELECTORS ''drift'' = Some e2\<close>
    \<open>map_of ALTERNATIVE_SELECTORS ''zendesk'' = Some e3\<close>
    \<open>map_of ALTERNATIVE_SELECTORS ''generic'' = Some e4\<close>
    by (metis insertCI)
  show ?thesis
    unfolding selector_tiers_def
    by (simp add: read2_own [OF fb] read2_own [OF alt(1)] read2_own [OF alt(2)]
          read2_own [OF alt(3)] read2_own [OF alt(4)])
qed

lemma selector_tiers_shape:
  \<open>selector_tiers rt c e =
     read2 rt HUBSPOT_SELECTORS c e # map Inr (map projr (tl (selector_tiers rt c e)))\<close>
proof -
  have \<open>selector_tiers rt c e = read2 rt HUBSPOT_SELECTORS c e # tl (selector_tiers rt c e)\<close>
    by (simp add: selector_tiers_def)
  with lower_tiers_read [of rt c e] show ?thesis by simp
qed

lemma length_lower_tiers: \<open>length (tl (selector_tiers rt c e)) = 5\<close>
  by (simp add: selector_tiers_def)

lemma getSelector_throws:
  assumes \<open>read2 rt HUBSPOT_SELECTORS c e = Inl err\<close>
  shows \<open>getSelector rt (SelectorManager_new\<lparr>discoveredSelectors := d\<rparr>) page c e =
           (Inl err, SelectorManager_new\<lparr>discoveredSelectors := d\<rparr>)\<close>
  using assms by (simp add: getSelector_def SelectorManager_new_def)








lemma getSelector_none:
  assumes \<open>read2 rt HUBSPOT_SELECTORS c e = Inr p\<close>
    and \<open>first_working page (p # map projr (tl (selector_tiers rt c e))) = None\<close>
  shows \<open>getSelector rt (SelectorManager_new\<lparr>discoveredSelectors := d\<rparr>) page c e =
     (Inl (Error (''No working selector found for '' @ c @ ''.'' @ e)),
      SelectorManager_new\<lparr>discoveredSelectors := d\<rparr>)\<close>
proof -
  obtain fb where fb: \<open>map_of HUBSPOT_SELECTORS ''fallback'' = Some fb\<close>
    using fallback_present by blast
  then have own: \<open>get_property HUBSPOT_SELECTORS ''fallback'' = Own fb\<close>
    by (simp add: get_property_def)
  have lows: \<open>map projr (tl (selector_tiers rt c e)) =
      to_value (get_property fb e)
        # map (\<lambda>(framework, selectors). to_value (get_property selectors e)) ALTERNATIVE_SELECTORS\<close>
    unfolding alternatives_tiers [of e rt] selector_tiers_def
    by (simp add: read2_own [OF fb])
  show ?thesis
    using assms(2) unfolding getSelector_def lows
    by (simp add: assms(1) own SelectorManager_new_def tryFrameworks_first_working
          split: option.splits)
qed

lemma first_working_Some_iff:
  \<open>first_working page ts = Some s \<longleftrightarrow>
     (\<exists>i<length ts. working page (ts ! i) = Some s \<and> (\<forall>j<i. working page (ts ! j) = None))\<close>
proof (induction ts)
  case Nil
  show ?case by simp
next
  case (Cons t ts)
  show ?case
  proof (cases \<open>working page t\<close>)
    case None
    have \<open>(\<exists>i<length (t # ts). working page ((t # ts) ! i) = Some s
              \<and> (\<forall>j<i. working page ((t # ts) ! j) = None))
       \<longleftrightarrow> (\<exists>i<length ts. working page (ts ! i) = Some s
              \<and> (\<forall>j<i. working page (ts ! j) = None))\<close>
      (is \<open>?L \<longleftrightarrow> ?R\<close>)
    proof
      assume ?L
      then obtain i where i: \<open>i < length (t # ts)\<close> \<open>working page ((t # ts) ! i) = Some s\<close>
        \<open>\<forall>j<i. working page ((t # ts) ! j) = None\<close> by blast
      with None obtain k where k: \<open>i = Suc k\<close> by (cases i) auto
      with i have \<open>k < length ts\<close> \<open>working page (ts ! k) = Some s\<close> by auto
      moreover have \<open>\<forall>j<k. working page (ts ! j) = None\<close>
      proof (intro allI impI)
        fix j assume \<open>j < k\<close>
        then have \<open>Suc j < i\<close> using k by simp
        with i(3) have \<open>working page ((t # ts) ! Suc j) = None\<close> by blast
        then show \<open>working page (ts ! j) = None\<close> by simp
      qed
      ultimately show ?R by blast
    next
      assume ?R
      then obtain k where k: \<open>k < length ts\<close> \<open>working page (ts ! k) = Some s\<close>
        \<open>\<forall>j<k. working page (ts ! j) = None\<close> by blast
      have \<open>\<forall>j<Suc k. working page ((t # ts) ! j) = None\<close>
      proof (intro allI impI)
        fix j assume \<open>j < Suc k\<close>
        then show \<open>working page ((t # ts) ! j) = None\<close>
          using None k(3) by (cases j) auto
      qed
      with k(1,2) show ?L by (intro exI [of _ \<open>Suc k\<close>]) simp
    qed
    with None Cons.IH show ?thesis by simp
  next
    case (Some s')
    have \<open>(\<exists>i<length (t # ts). working page ((t # ts) ! i) = Some s
              \<and> (\<forall>j<i. working page ((t # ts) ! j) = None)) \<longleftrightarrow> s' = s\<close>
      (is \<open>?L \<longleftrightarrow> _\<close>)
    proof
      assume ?L
      then obtain i where i: \<open>working page ((t # ts) ! i) = Some s\<close>
        \<open>\<forall>j<i. working page ((t # ts) ! j) = None\<close> by blast
      have \<open>i = 0\<close>
      proof (rule ccontr)
        assume \<open>i \<noteq> 0\<close>
        then have \<open>0 < i\<close> by simp
        with i(2) have \<open>working page ((t # ts) ! 0) = None\<close> by blast
        with Some show False by simp
      qed
      with i(1) Some show \<open>s' = s\<close> by simp
    next
      assume \<open>s' = s\<close>
      with Some show ?L by (intro exI [of _ 0]) simp
    qed
    with Some show ?thesis by simp
  qed
qed


lemma working_None_iff: \<open>working page x = None \<longleftrightarrow> \<not> visible_tier page (Inr x)\<close>
  by (simp add: working_def visible_tier_def)


lemma first_working_None:
  fixes vs :: \<open>js_value list\<close>
  assumes \<open>\<forall>i<length vs. \<not> visible_tier page (Inr (vs ! i))\<close>
  shows \<open>first_working page vs = None\<close>
proof (cases \<open>first_working page vs\<close>)
  case None
  then show ?thesis .
next
  case (Some v)
  then obtain i where i: \<open>i < length vs\<close> \<open>working page (vs ! i) = Some v\<close>
    unfolding first_working_Some_iff by blast
  from assms i(1) have \<open>\<not> visible_tier page (Inr (vs ! i))\<close> by blast
  then have \<open>working page (vs ! i) = None\<close> unfolding working_None_iff .
  with i(2) show ?thesis by simp
qed

text \<open>
  When no tier gives a visible selector the call fails and leaves the manager as it was. The
  exception is the \<^verbatim>\<open>Error\<close> that names the category and the element, unless the read of the
  primary selector threw: then it is what that read threw.
\<close>

lemma getSelector_none_visible:
  assumes \<open>\<forall>i<6. \<not> visible_tier page (selector_tiers rt c e ! i)\<close>
  shows \<open>getSelector rt (SelectorManager_new\<lparr>discoveredSelectors := d\<rparr>) page c e =
           (Inl (case read2 rt HUBSPOT_SELECTORS c e of
                   Inl err \<Rightarrow> err
                 | Inr p \<Rightarrow> Error (''No working selector found for '' @ c @ ''.'' @ e)),
            SelectorManager_new\<lparr>discoveredSelectors := d\<rparr>)\<close>
proof (cases \<open>read2 rt HUBSPOT_SELECTORS c e\<close>)
  case (Inl err)
  then show ?thesis using getSelector_throws [OF Inl, of d page] by simp
next
  case (Inr p)
  define vs where \<open>vs = p # map projr (tl (selector_tiers rt c e))\<close>
  have len: \<open>length vs = 6\<close>
    unfolding vs_def using length_lower_tiers [of rt c e] by simp
  have tiers: \<open>selector_tiers rt c e = map Inr vs\<close>
    unfolding vs_def using selector_tiers_shape [of rt c e] Inr by simp
  have \<open>\<forall>i<length vs. \<not> visible_tier page (Inr (vs ! i))\<close>
  proof (intro allI impI)
    fix i assume i: \<open>i < length vs\<close>
    with len assms have \<open>\<not> visible_tier page (selector_tiers rt c e ! i)\<close> by simp
    then show \<open>\<not> visible_tier page (Inr (vs ! i))\<close>
      unfolding tiers using i by simp
  qed
  then have \<open>first_working page vs = None\<close> by (rule first_working_None)
  then have \<open>getSelector rt (SelectorManager_new\<lparr>discoveredSelectors := d\<rparr>) page c e =
     (Inl (Error (''No working selector found for '' @ c @ ''.'' @ e)),
      SelectorManager_new\<lparr>discoveredSelectors := d\<rparr>)\<close>
    unfolding vs_def by (rule getSelector_none [OF Inr])
  with Inr show ?thesis by simp
qed



text \<open>
  C4 claims that for every category and element, when no tier has a visible selector,
  \<^verbatim>\<open>getSelector\<close> throws the \<^verbatim>\<open>Error\<close> that names the category and the element. For the
  category \<^verbatim>\<open>constructor\<close> and the element \<^verbatim>\<open>caller\<close>, on a page where nothing is
  visible, no tier is visible, and the read of the primary selector, which is the read of
  \<^verbatim>\<open>caller\<close> on the function \<^verbatim>\<open>Object\<close>, throws a \<^verbatim>\<open>TypeError\<close>: that is the exception
  that leaves \<^verbatim>\<open>getSelector\<close>, and its message names neither. The manager is left as it
  was.
\<close>

theorem getSelector_restricted_read_throws:
  \<open>filter (visible_tier (\<lambda>l. Hidden)) (selector_tiers rt ''constructor'' ''caller'') = []
   \<and> getSelector rt (SelectorManager_new\<lparr>discoveredSelectors := d\<rparr>) (\<lambda>l. Hidden)
         ''constructor'' ''caller''
       = (Inl TypeError, SelectorManager_new\<lparr>discoveredSelectors := d\<rparr>)\<close>
proof -
  have read: \<open>read2 rt HUBSPOT_SELECTORS ''constructor'' ''caller'' = Inl TypeError\<close>
    by (simp add: read2_def read_builtin_def restricted_def get_property_def
          HUBSPOT_SELECTORS_def Object_prototype_def)
  have \<open>\<not> visible_tier (\<lambda>l. Hidden) t\<close> for t
    by (simp add: visible_tier_def isElementVisible_def split: sum.splits)
  then have \<open>filter (visible_tier (\<lambda>l. Hidden)) (selector_tiers rt ''constructor'' ''caller'') = []\<close>
    by (simp add: filter_empty_conv)
  with getSelector_throws [OF read, of d \<open>\<lambda>l. Hidden\<close>] show ?thesis by simp
qed

section \<open>Properties of the chatbot helper\<close>

text \<open>
  C7. For every page, \<^verbatim>\<open>isChatbotClosed\<close> is the negation of \<^verbatim>\<open>isChatbotOpen\<close>: the two
  never hold together, and one of them holds.
\<close>

theorem isChatbotClosed_negates_isChatbotOpen:
  \<open>isChatbotClosed page = (\<not> isChatbotOpen page)
   \<and> \<not> (isChatbotClosed page \<and> isChatbotOpen page)
   \<and> (isChatbotClosed page \<or> isChatbotOpen page)\<close>
  by (simp add: isChatbotClosed_def)

theorem isChatbotClosed_negates_isChatbotOpen_witness:
  \<open>isChatbotOpen (\<lambda>l. if l = Locator ''[class*="chat-open"]'' then Visible
                       else if l = Locator ''[data-test-id*="chat-input"]'' then Throws
                       else Hidden)
   \<and> \<not> isChatbotClosed (\<lambda>l. if l = Locator ''[class*="chat-open"]'' then Visible
                       else if l = Locator ''[data-test-id*="chat-input"]'' then Throws
                       else Hidden)
   \<and> isChatbotClosed (\<lambda>l. Hidden)
   \<and> \<not> isChatbotOpen (\<lambda>l. Hidden)\<close>
proof -
  let ?p = \<open>\<lambda>l. if l = Locator ''[class*="chat-open"]'' then Visible
                       else if l = Locator ''[data-test-id*="chat-input"]'' then Throws
                       else Hidden\<close>
  have o: \<open>isChatbotOpen ?p\<close>
    by (simp add: isChatbotOpen_def openIndicators_def)
  have c: \<open>\<not> isChatbotOpen (\<lambda>l. Hidden)\<close>
    by (simp add: isChatbotOpen_def openIndicators_def)
  from o c isChatbotClosed_negates_isChatbotOpen [of ?p]
    isChatbotClosed_negates_isChatbotOpen [of \<open>\<lambda>l. Hidden\<close>]
  show ?thesis by blast
qed

lemma trim_whitespace:
  assumes \<open>\<forall>c \<in> set msg. is_js_whitespace c\<close>
  shows \<open>trim msg = []\<close>
proof -
  from assms have \<open>dropWhile is_js_whitespace msg = []\<close>
    by (simp only: dropWhile_eq_Nil_conv)
  then show ?thesis
    unfolding trim_def by (simp only: rev.simps dropWhile.simps)
qed

text \<open>
  C9. For a message that is empty or made of white space only, \<^verbatim>\<open>sendMessage\<close> returns
  \<^verbatim>\<open>false\<close>, makes no call on the page, and leaves the page, \<^verbatim>\<open>messageHistory\<close> and
  \<^verbatim>\<open>lastMessageTimestamp\<close> as they were.
\<close>

theorem sendMessage_blank_returns_false:
  assumes \<open>\<forall>c \<in> set msg. is_js_whitespace c\<close>
  shows \<open>sendMessage b now h p msg = (Inr ReturnedFalse, h, p, [])\<close>
  using trim_whitespace [OF assms] by (simp add: sendMessage_def)

theorem sendMessage_blank_returns_false_witness:
  \<open>sendMessage \<lparr>visible = (\<lambda>p l. Visible), perform = (\<lambda>p c. (None, Suc p))\<rparr> (\<lambda>k. 1000 + int k)
      \<lparr>lastMessageTimestamp = 17, messageHistory = []\<rparr> (0::nat) [32, 9, 10, 0xA0, 0x3000]
    = (Inr ReturnedFalse, \<lparr>lastMessageTimestamp = 17, messageHistory = []\<rparr>, 0, [])
   \<and> sendMessage \<lparr>visible = (\<lambda>p l. Visible), perform = (\<lambda>p c. (None, Suc p))\<rparr> (\<lambda>k. 1000 + int k)
      \<lparr>lastMessageTimestamp = 17, messageHistory = []\<rparr> (0::nat) []
    = (Inr ReturnedFalse, \<lparr>lastMessageTimestamp = 17, messageHistory = []\<rparr>, 0, [])\<close>
proof -
  have w: \<open>\<forall>c \<in> set [32, 9, 10, 0xA0, 0x3000]. is_js_whitespace c\<close>
    by (simp add: is_js_whitespace_def)
  have e: \<open>\<forall>c \<in> set []. is_js_whitespace c\<close> by simp
  show ?thesis
    by (intro conjI sendMessage_blank_returns_false [OF w] sendMessage_blank_returns_false [OF e])
qed

text \<open>A message that is not blank does reach the page: one run of the whole method.\<close>

lemma sendMessage_sends:
  \<open>sendMessage \<lparr>visible = (\<lambda>p l. Visible), perform = (\<lambda>p c. (None, Suc p))\<rparr> (\<lambda>k. 1000 + int k)
      \<lparr>lastMessageTimestamp = 17, messageHistory = []\<rparr> (0::nat) [72, 105]
   = (Inr (Elapsed 3),
      \<lparr>lastMessageTimestamp = 1002,
       messageHistory = [\<lparr>entry_type = ''user'', content = [72, 105], entry_timestamp = 1001\<rparr>]\<rparr>,
      3,
      [IsVisible (First ''[data-test-id*="chat-input"]''),
       Clear (First ''[data-test-id*="chat-input"]''),
       Fill (First ''[data-test-id*="chat-input"]'') [72, 105],
       IsVisible (Locator ''[data-test-id*="send"]''),
       Click (Locator ''[data-test-id*="send"]'')])\<close>
  by (simp add: sendMessage_def trim_def is_js_whitespace_def inputSelectors_def sendSelectors_def)

section \<open>Properties of the load script\<close>

lemma totalWeight_100: \<open>totalWeight = 100\<close>
  by (simp add: totalWeight_def TEST_SCENARIOS_def fl_numeral)

lemma first_draw_below_total:
  assumes \<open>is_double r\<close> \<open>0 \<le> r\<close> \<open>r < 1\<close>
  shows \<open>fl (r * 100) \<le> 100 - 1 / 2 ^ 46\<close>
proof -
  from assms(1,3) have \<open>r \<le> 1 - 1 / 2 ^ 53\<close> by (rule double_below_one)
  then have \<open>r * 100 \<le> (1 - 1 / 2 ^ 53) * 100\<close> by (intro mult_right_mono) simp_all
  then have \<open>fl (r * 100) \<le> fl ((1 - 1 / 2 ^ 53) * 100)\<close> by (rule fl_mono)
  then show ?thesis unfolding fl_below_100 .
qed

lemma message_index_in_range:
  assumes \<open>is_double r\<close> \<open>0 \<le> r\<close> \<open>r < 1\<close>
  shows \<open>0 \<le> \<lfloor>fl (r * 4)\<rfloor> \<and> \<lfloor>fl (r * 4)\<rfloor> < 4\<close>
proof -
  from assms(1,3) have \<open>r \<le> 1 - 1 / 2 ^ 53\<close> by (rule double_below_one)
  then have \<open>r * 4 \<le> (1 - 1 / 2 ^ 53) * 4\<close> by (intro mult_right_mono) simp_all
  then have \<open>fl (r * 4) \<le> fl ((1 - 1 / 2 ^ 53) * 4)\<close> by (rule fl_mono)
  then have \<open>fl (r * 4) \<le> 4 - 1 / 2 ^ 51\<close> unfolding fl_below_4 .
  then have \<open>fl (r * 4) < 4\<close> by simp
  then have up: \<open>\<lfloor>fl (r * 4)\<rfloor> < 4\<close> by (simp add: floor_less_iff)
  from assms(2) have \<open>0 \<le> r * 4\<close> by simp
  then have \<open>fl 0 \<le> fl (r * 4)\<close> by (rule fl_mono)
  then have \<open>0 \<le> fl (r * 4)\<close> unfolding fl_0 .
  then have \<open>0 \<le> \<lfloor>fl (r * 4)\<rfloor>\<close> by simp
  with up show ?thesis by blast
qed

lemma fl_minus_le:
  assumes \<open>x \<le> c\<close> \<open>c = a + b\<close> \<open>fl b = b\<close>
  shows \<open>fl (x - a) \<le> b\<close>
proof -
  from assms(1,2) have \<open>x - a \<le> b\<close> by simp
  then have \<open>fl (x - a) \<le> fl b\<close> by (rule fl_mono)
  then show ?thesis unfolding assms(3) .
qed

lemma draws_TEST_SCENARIOS:
  \<open>draws r TEST_SCENARIOS =
     [fl (r - 30),
      fl (fl (r - 30) - 25),
      fl (fl (fl (r - 30) - 25) - 20),
      fl (fl (fl (fl (r - 30) - 25) - 20) - 15),
      fl (fl (fl (fl (fl (r - 30) - 25) - 20) - 15) - 10)]\<close>
  by (simp add: TEST_SCENARIOS_def)

lemma last_draw_not_positive:
  assumes \<open>r \<le> 100\<close>
  shows \<open>draws r TEST_SCENARIOS ! 4 \<le> 0\<close>
proof -
  from assms have \<open>fl (r - 30) \<le> 70\<close> by (rule fl_minus_le) (simp_all add: fl_numeral)
  then have \<open>fl (fl (r - 30) - 25) \<le> 45\<close> by (rule fl_minus_le) (simp_all add: fl_numeral)
  then have \<open>fl (fl (fl (r - 30) - 25) - 20) \<le> 25\<close> by (rule fl_minus_le) (simp_all add: fl_numeral)
  then have \<open>fl (fl (fl (fl (r - 30) - 25) - 20) - 15) \<le> 10\<close> by (rule fl_minus_le) (simp_all add: fl_numeral)
  then have \<open>fl (fl (fl (fl (r - 30) - 25) - 20) - 15) - 10 \<le> 0\<close> by simp
  then have \<open>fl (fl (fl (fl (fl (r - 30) - 25) - 20) - 15) - 10) \<le> fl 0\<close> by (rule fl_mono)
  then show ?thesis unfolding draws_TEST_SCENARIOS fl_0 by simp
qed

lemma length_draws: \<open>length (draws r scs) = length scs\<close>
  by (induction scs arbitrary: r) simp_all

lemma pickScenario_first_not_positive:
  assumes \<open>i < length scs\<close> \<open>draws r scs ! i \<le> 0\<close> \<open>\<forall>j<i. 0 < draws r scs ! j\<close>
  shows \<open>pickScenario r r2 scs =
     Some \<lparr>category = scenario.category (scs ! i),
           message = array_at (messages (scs ! i))
                       \<lfloor>fl (r2 * of_nat (length (messages (scs ! i))))\<rfloor>\<rparr>\<close>
  using assms
proof (induction scs arbitrary: r i)
  case Nil
  then show ?case by simp
next
  case (Cons sc rest)
  show ?case
  proof (cases i)
    case 0
    with Cons.prems(2) show ?thesis by (simp add: Let_def)
  next
    case (Suc k)
    from Cons.prems(3) Suc have \<open>0 < draws r (sc # rest) ! 0\<close> by blast
    then have pos: \<open>\<not> fl (r - weight sc) \<le> 0\<close> by simp
    from Cons.prems(1) Suc have k: \<open>k < length rest\<close> by simp
    from Cons.prems(2) Suc have here: \<open>draws (fl (r - weight sc)) rest ! k \<le> 0\<close> by simp
    have before: \<open>\<forall>j<k. 0 < draws (fl (r - weight sc)) rest ! j\<close>
    proof (intro allI impI)
      fix j assume \<open>j < k\<close>
      then have \<open>Suc j < i\<close> using Suc by simp
      with Cons.prems(3) have \<open>0 < draws r (sc # rest) ! Suc j\<close> by blast
      then show \<open>0 < draws (fl (r - weight sc)) rest ! j\<close> by simp
    qed
    from Cons.IH [OF k here before] pos Suc show ?thesis by (simp add: Let_def)
  qed
qed

lemma first_index:
  fixes P :: \<open>nat \<Rightarrow> bool\<close>
  assumes \<open>P n\<close>
  shows \<open>\<exists>i\<le>n. P i \<and> (\<forall>j<i. \<not> P j)\<close>
proof -
  let ?i = \<open>LEAST i. P i\<close>
  from assms have \<open>P ?i\<close> by (rule LeastI)
  moreover from assms have \<open>?i \<le> n\<close> by (rule Least_le)
  moreover have \<open>\<forall>j<?i. \<not> P j\<close> using not_less_Least by blast
  ultimately show ?thesis by blast
qed

lemma four_messages:
  assumes \<open>i < length TEST_SCENARIOS\<close>
  shows \<open>length (messages (TEST_SCENARIOS ! i)) = 4\<close>
proof -
  from assms have \<open>i \<in> {0, 1, 2, 3, 4}\<close> by (auto simp: TEST_SCENARIOS_def)
  then show ?thesis by (auto simp: TEST_SCENARIOS_def)
qed

text \<open>
  C10. Let \<open>r1\<close> and \<open>r2\<close> be the two values of \<^verbatim>\<open>Math.random()\<close>, binary64 values from 0
  up to but not 1. The total weight is 100 and the scaled draw is below it. The loop
  returns, so the fallback is not reached, and what \<^verbatim>\<open>getRandomScenario\<close> returns is what
  the loop returns: the category of the first scenario of the table after whose subtraction
  the rest of the draw is not positive, and the message of that scenario at the index
  \<^verbatim>\<open>Math.floor(r2 * messages.length)\<close>, which is within its list of messages.
\<close>

theorem getRandomScenario_from_table:
  assumes \<open>is_double r1\<close> \<open>0 \<le> r1\<close> \<open>r1 < 1\<close>
    and \<open>is_double r2\<close> \<open>0 \<le> r2\<close> \<open>r2 < 1\<close>
  shows \<open>totalWeight = 100 \<and> fl (r1 * totalWeight) < totalWeight
    \<and> (\<exists>i<length TEST_SCENARIOS. \<exists>k<length (messages (TEST_SCENARIOS ! i)).
          draws (fl (r1 * totalWeight)) TEST_SCENARIOS ! i \<le> 0
        \<and> (\<forall>j<i. 0 < draws (fl (r1 * totalWeight)) TEST_SCENARIOS ! j)
        \<and> int k = \<lfloor>fl (r2 * of_nat (length (messages (TEST_SCENARIOS ! i))))\<rfloor>
        \<and> pickScenario (fl (r1 * totalWeight)) r2 TEST_SCENARIOS = Some (getRandomScenario r1 r2)
        \<and> getRandomScenario r1 r2 =
            \<lparr>category = scenario.category (TEST_SCENARIOS ! i),
             message = Some (messages (TEST_SCENARIOS ! i) ! k)\<rparr>)\<close>
proof -
  let ?r = \<open>fl (r1 * totalWeight)\<close>
  have below: \<open>?r \<le> 100 - 1 / 2 ^ 46\<close>
    unfolding totalWeight_100 using assms(1-3) by (rule first_draw_below_total)
  then have lt: \<open>?r < totalWeight\<close> unfolding totalWeight_100 by simp
  from below have \<open>?r \<le> 100\<close> by simp
  then have \<open>draws ?r TEST_SCENARIOS ! 4 \<le> 0\<close> by (rule last_draw_not_positive)
  then obtain i where i: \<open>i \<le> 4\<close> \<open>draws ?r TEST_SCENARIOS ! i \<le> 0\<close>
    \<open>\<forall>j<i. \<not> draws ?r TEST_SCENARIOS ! j \<le> 0\<close>
    using first_index [of \<open>\<lambda>i. draws ?r TEST_SCENARIOS ! i \<le> 0\<close> 4] by blast
  from i(1) have len: \<open>i < length TEST_SCENARIOS\<close> by (simp add: TEST_SCENARIOS_def)
  from i(3) have before: \<open>\<forall>j<i. 0 < draws ?r TEST_SCENARIOS ! j\<close> by (simp add: not_le)
  have four: \<open>length (messages (TEST_SCENARIOS ! i)) = 4\<close> using len by (rule four_messages)
  define z where \<open>z = \<lfloor>fl (r2 * 4)\<rfloor>\<close>
  from message_index_in_range [OF assms(4-6)]
  have z: \<open>0 \<le> z\<close> \<open>z < 4\<close> unfolding z_def by blast+
  define k where \<open>k = nat z\<close>
  from z have k: \<open>int k = z\<close> \<open>k < 4\<close> unfolding k_def by simp_all
  have \<open>array_at (messages (TEST_SCENARIOS ! i)) z = Some (messages (TEST_SCENARIOS ! i) ! k)\<close>
    using z four by (simp add: array_at_def k_def)
  then have at: \<open>array_at (messages (TEST_SCENARIOS ! i)) \<lfloor>fl (r2 * 4)\<rfloor> =
      Some (messages (TEST_SCENARIOS ! i) ! k)\<close>
    unfolding z_def .
  have pick: \<open>pickScenario ?r r2 TEST_SCENARIOS =
      Some \<lparr>category = scenario.category (TEST_SCENARIOS ! i),
            message = Some (messages (TEST_SCENARIOS ! i) ! k)\<rparr>\<close>
    using pickScenario_first_not_positive [OF len i(2) before, of r2] at four by simp
  then have res: \<open>getRandomScenario r1 r2 =
      \<lparr>category = scenario.category (TEST_SCENARIOS ! i),
       message = Some (messages (TEST_SCENARIOS ! i) ! k)\<rparr>\<close>
    by (simp add: getRandomScenario_def)
  have \<open>k < length (messages (TEST_SCENARIOS ! i))\<close> using k(2) four by simp
  moreover have \<open>int k = \<lfloor>fl (r2 * of_nat (length (messages (TEST_SCENARIOS ! i))))\<rfloor>\<close>
    using k(1) four unfolding z_def by simp
  moreover have \<open>pickScenario ?r r2 TEST_SCENARIOS = Some (getRandomScenario r1 r2)\<close>
    using pick res by simp
  ultimately show ?thesis using totalWeight_100 lt len i(2) before res by blast
qed

lemma double_nine_tenths: \<open>is_double (8106479329266893 / 9007199254740992)\<close>
  unfolding is_double_def
  by (simp add: fl_scaled [where k = 53] round_even_def)

lemma ninety: \<open>fl (8106479329266893 / 9007199254740992 * 100) = 90\<close>
  by (simp add: fl_scaled [where k = 46] round_even_def floor_rat_numeral)

theorem getRandomScenario_from_table_witness:
  \<open>is_double (8106479329266893 / 9007199254740992) \<and> is_double 0
   \<and> fl (8106479329266893 / 9007199254740992 * totalWeight) < totalWeight
   \<and> getRandomScenario (8106479329266893 / 9007199254740992) 0 =
        \<lparr>category = ''support'', message = Some ''I need help''\<rparr>\<close>
proof -
  have zero: \<open>is_double 0\<close> by (simp add: is_double_def fl_0)
  from getRandomScenario_from_table [OF double_nine_tenths _ _ zero]
  have \<open>fl (8106479329266893 / 9007199254740992 * totalWeight) < totalWeight\<close> by simp
  moreover have \<open>getRandomScenario (8106479329266893 / 9007199254740992) 0 =
      \<lparr>category = ''support'', message = Some ''I need help''\<rparr>\<close>
  proof -
    have draw: \<open>fl (8106479329266893 / 9007199254740992 * totalWeight) = 90\<close>
      unfolding totalWeight_100 by (rule ninety)
    show ?thesis
      unfolding getRandomScenario_def draw
      by (simp add: TEST_SCENARIOS_def Let_def fl_numeral fl_0 array_at_def)
  qed
  ultimately show ?thesis using double_nine_tenths zero by blast
qed

end
